theory Spec2Isabelle
  imports Complex_Main "HOL-Library.Multiset" "HOL-Library.Sublist"
begin

section \<open>FIRMS download: the per-source refresh-window merge\<close>

text \<open>
  The model follows \<^verbatim>\<open>process_download\<close> of \<^verbatim>\<open>FIRMS_download.py\<close>, the body of its loop
  over the sources. A data frame is the list of its rows, in row order. A cell of a numeric
  column is a number, a text that is no number literal, or blank (pandas' NaN). Floating
  point numbers are idealised as reals. A date is the number of its day, the time of day is
  the text of the cell.
\<close>

datatype cell = Num real | Txt string | Blank

record detection =
  acq_date :: int
  acq_time :: string
  latitude :: cell
  longitude :: cell
  frp :: cell
  track :: cell

text \<open>\<^verbatim>\<open>.str.zfill(4)\<close>: pad with zeros on the left up to the width; longer texts are kept.\<close>

definition zfill :: "nat \<Rightarrow> string \<Rightarrow> string" where
  "zfill w s = replicate (w - length s) (CHR ''0'') @ s"

definition pad_time :: "detection \<Rightarrow> detection" where
  "pad_time r = r\<lparr>acq_time := zfill 4 (acq_time r)\<rparr>"

text \<open>\<^verbatim>\<open>pd.to_numeric(..., errors='coerce')\<close>: what does not parse becomes NaN.\<close>

fun to_numeric :: "cell \<Rightarrow> cell" where
  "to_numeric (Num x) = Num x"
| "to_numeric (Txt s) = Blank"
| "to_numeric Blank = Blank"

definition coerce_lat_lon :: "detection \<Rightarrow> detection" where
  "coerce_lat_lon r =
     r\<lparr>latitude := to_numeric (latitude r), longitude := to_numeric (longitude r)\<rparr>"

text \<open>\<^verbatim>\<open>dropna(subset=['latitude', 'longitude'])\<close>\<close>

definition dropna :: "detection list \<Rightarrow> detection list" where
  "dropna df = filter (\<lambda>r. latitude r \<noteq> Blank \<and> longitude r \<noteq> Blank) df"

text \<open>
  \<^verbatim>\<open>.round(4)\<close> is numpy's rounding: scale by \<open>10^4\<close>, round half to even, scale back.
\<close>

definition rint :: "real \<Rightarrow> int" where
  "rint x =
     (let f = \<lfloor>x\<rfloor>; d = x - of_int f
      in if d < 1 / 2 then f else if 1 / 2 < d then f + 1
         else if even f then f else f + 1)"

definition round4 :: "real \<Rightarrow> real" where
  "round4 x = of_int (rint (x * 10000)) / 10000"

fun round_cell :: "cell \<Rightarrow> cell" where
  "round_cell (Num x) = Num (round4 x)"
| "round_cell c = c"

text \<open>
  The columns \<^verbatim>\<open>['lat_round', 'lon_round', 'acq_date', 'acq_time']\<close> of a row. The archive
  is one file per source, so the source is not a column.
\<close>

definition dedup_key :: "detection \<Rightarrow> cell \<times> cell \<times> int \<times> string" where
  "dedup_key r = (round_cell (latitude r), round_cell (longitude r), acq_date r, acq_time r)"

text \<open>
  \<^verbatim>\<open>drop_duplicates(subset=...)\<close> with the default \<^verbatim>\<open>keep='first'\<close>: one pass in row
  order that keeps a row when its key has not been seen.
\<close>

fun drop_dups_from :: "('a \<Rightarrow> 'k) \<Rightarrow> 'k list \<Rightarrow> 'a list \<Rightarrow> 'a list" where
  "drop_dups_from key seen [] = []"
| "drop_dups_from key seen (x # xs) =
     (if key x \<in> set seen then drop_dups_from key seen xs
      else x # drop_dups_from key (key x # seen) xs)"

definition drop_duplicates :: "('a \<Rightarrow> 'k) \<Rightarrow> 'a list \<Rightarrow> 'a list" where
  "drop_duplicates key df = drop_dups_from key [] df"

text \<open>\<^verbatim>\<open>df_new['acq_date'].unique()\<close> and \<^verbatim>\<open>df_hist[~df_hist['acq_date'].isin(...)]\<close>\<close>

definition unique_dates :: "detection list \<Rightarrow> int list" where
  "unique_dates df = remdups (map acq_date df)"

definition refresh_window :: "int list \<Rightarrow> detection list \<Rightarrow> detection list" where
  "refresh_window dates_to_refresh df_hist =
     filter (\<lambda>r. acq_date r \<notin> set dates_to_refresh) df_hist"

text \<open>The line of the log that one source contributes.\<close>

datatype log_entry = ApiError nat | NoDataFound | RecordsMerged nat nat

text \<open>
  The branch taken when the archive file exists: both frames get their times padded, the
  dates of the batch are refreshed, then the rows are concatenated, coerced, and deduplicated.
\<close>

definition merge_existing :: "detection list \<Rightarrow> detection list \<Rightarrow> detection list" where
  "merge_existing df_new df_hist =
     (let df_hist = map pad_time df_hist;
          dates_to_refresh = unique_dates df_new;
          df_hist = refresh_window dates_to_refresh df_hist;
          df_combined = df_hist @ df_new;
          df_combined = map coerce_lat_lon df_combined;
          df_combined = dropna df_combined
      in drop_duplicates dedup_key df_combined)"

text \<open>
  One turn of the loop: the response (status code and parsed rows) and the archive file
  (absent, or its rows) give the archive file afterwards and the log line. The file is
  rewritten only on the last path.
\<close>

definition process_source ::
  "nat \<times> detection list \<Rightarrow> detection list option \<Rightarrow> detection list option \<times> log_entry" where
  "process_source response archive =
     (let (status_code, df_new) = response
      in if status_code \<noteq> 200 then (archive, ApiError status_code)
         else if df_new = [] then (archive, NoDataFound)
         else
           let current_batch_count = length df_new;
               df_new = map pad_time df_new;
               df_final = (case archive of
                             Some df_hist \<Rightarrow> merge_existing df_new df_hist
                           | None \<Rightarrow> df_new)
           in (Some df_final, RecordsMerged current_batch_count (length df_final)))"

text \<open>
  The last three steps of \<^verbatim>\<open>merge_existing\<close> on their own, for stating what the merge
  leaves of a frame: coerce the coordinates, drop the blank ones, drop the duplicates.
\<close>

definition cleaned :: "detection list \<Rightarrow> detection list" where
  "cleaned df = drop_duplicates dedup_key (dropna (map coerce_lat_lon df))"

section \<open>Distance tagging: loading, filtering and the Haversine distance\<close>

text \<open>
  The model follows \<^verbatim>\<open>load_and_tag_data\<close> and \<^verbatim>\<open>get_layout\<close> of \<^verbatim>\<open>LavaFlow_mapper.py\<close>
  up to the frame \<^verbatim>\<open>filtered\<close> with its column \<^verbatim>\<open>distance_km\<close>. An exception that leaves
  the function is a value of \<open>py_error\<close>.
\<close>

datatype py_error = ValueError | TypeError

text \<open>
  \<^verbatim>\<open>pd.to_datetime(acq_date + " " + acq_time.zfill(4), format="%d/%m/%Y %H%M")\<close>: the time
  of day has to be two digits of hours below 24 and two digits of minutes below 60, anything
  else raises. The timestamp is counted in minutes, \<open>1440\<close> to the day.
\<close>

definition is_digit :: "char \<Rightarrow> bool" where
  "is_digit c = (48 \<le> (of_char c :: nat) \<and> (of_char c :: nat) \<le> 57)"

definition digit :: "char \<Rightarrow> nat" where
  "digit c = of_char c - 48"

definition strptime_hhmm :: "string \<Rightarrow> py_error + nat" where
  "strptime_hhmm s =
     (if length s = 4 \<and> list_all is_digit s then
        let h = 10 * digit (s ! 0) + digit (s ! 1);
            m = 10 * digit (s ! 2) + digit (s ! 3)
        in if h < 24 \<and> m < 60 then Inr (60 * h + m) else Inl ValueError
      else Inl ValueError)"

record tagged = detection +
  date :: int
  satellite :: string
  source :: nat

text \<open>
  One row of one file: the four numeric columns are coerced, the timestamp is parsed, the
  satellite name and number are attached. The column \<^verbatim>\<open>acq_time\<close> itself stays as read.
\<close>

definition tag_row :: "string \<Rightarrow> nat \<Rightarrow> detection \<Rightarrow> py_error + tagged" where
  "tag_row name ident r =
     (case strptime_hhmm (zfill 4 (acq_time r)) of
        Inl e \<Rightarrow> Inl e
      | Inr minutes \<Rightarrow>
          Inr \<lparr>acq_date = acq_date r, acq_time = acq_time r,
               latitude = to_numeric (latitude r), longitude = to_numeric (longitude r),
               frp = to_numeric (frp r), track = to_numeric (track r),
               date = 1440 * acq_date r + int minutes, satellite = name, source = ident\<rparr>)"

text \<open>The first exception ends the loop.\<close>

fun collect :: "('e + 'a) list \<Rightarrow> 'e + 'a list" where
  "collect [] = Inr []"
| "collect (x # xs) =
     (case x of
        Inl e \<Rightarrow> Inl e
      | Inr v \<Rightarrow> (case collect xs of Inl e \<Rightarrow> Inl e | Inr vs \<Rightarrow> Inr (v # vs)))"

definition tag_file :: "string \<Rightarrow> nat \<Rightarrow> detection list \<Rightarrow> py_error + tagged list" where
  "tag_file name ident df = collect (map (tag_row name ident) df)"

definition configs :: "(string \<times> string \<times> nat) list" where
  "configs = [(''*SNPP*.csv'', ''SNPP'', 1), (''*NOAA20*.csv'', ''NOAA20'', 2),
              (''*NOAA21*.csv'', ''NOAA21'', 3)]"

text \<open>
  \<open>glob\<close> gives the frames of the files that match a pattern. No file at all gives the
  empty frame.
\<close>

definition load_and_tag_data :: "(string \<Rightarrow> detection list list) \<Rightarrow> py_error + tagged list" where
  "load_and_tag_data glob =
     (case collect (concat (map (\<lambda>(pattern, name, ident). map (tag_file name ident) (glob pattern))
                              configs)) of
        Inl e \<Rightarrow> Inl e
      | Inr all_data \<Rightarrow> Inr (concat all_data))"

text \<open>
  The values that \<^verbatim>\<open>load_global_config\<close> stores: \<^verbatim>\<open>true\<close>/\<^verbatim>\<open>false\<close>, an integer, a
  float, or the text itself. \<^verbatim>\<open>cfg.get(key, default)\<close> is \<open>cfg_get\<close>.
\<close>

datatype cfgval = CBool bool | CInt int | CFloat real | CStr string

type_synonym config = "string \<Rightarrow> cfgval option"

definition cfg_get :: "config \<Rightarrow> string \<Rightarrow> cfgval \<Rightarrow> cfgval" where
  "cfg_get cfg k d = (case cfg k of Some v \<Rightarrow> v | None \<Rightarrow> d)"

text \<open>
  A configuration value used as a number, in a comparison with a float column or in a
  product with a float: a bool counts as 0 or 1, a text raises \<^verbatim>\<open>TypeError\<close>.
\<close>

fun as_number :: "cfgval \<Rightarrow> py_error + real" where
  "as_number (CBool b) = Inr (if b then 1 else 0)"
| "as_number (CInt i) = Inr (of_int i)"
| "as_number (CFloat x) = Inr x"
| "as_number (CStr s) = Inl TypeError"

text \<open>Comparisons of a float column with a number: NaN compares false.\<close>

fun cell_le :: "cell \<Rightarrow> real \<Rightarrow> bool" where
  "cell_le (Num x) y = (x \<le> y)"
| "cell_le c y = False"

fun cell_ge :: "cell \<Rightarrow> real \<Rightarrow> bool" where
  "cell_ge (Num x) y = (y \<le> x)"
| "cell_ge c y = False"

definition passes :: "real \<Rightarrow> real \<Rightarrow> int \<Rightarrow> int \<Rightarrow> tagged \<Rightarrow> bool" where
  "passes max_track min_frp start_dt end_dt r =
     (cell_le (track r) max_track \<and> cell_ge (frp r) min_frp \<and>
      start_dt \<le> date r \<and> date r \<le> end_dt)"

text \<open>Lines 91 to 96, for one row, with the coordinates in degrees.\<close>

definition haversine_km :: "real \<Rightarrow> real \<Rightarrow> real \<Rightarrow> real \<Rightarrow> real" where
  "haversine_km LATS_vent LONGS_vent lat lon =
     (let R_earth = 6371.0;
          p = pi / 180;
          lat1 = LATS_vent * p; lon1 = LONGS_vent * p;
          lat2 = lat * p; lon2 = lon * p;
          a = (sin ((lat2 - lat1) / 2))\<^sup>2 + cos lat1 * cos lat2 * (sin ((lon2 - lon1) / 2))\<^sup>2
      in R_earth * 2 * arcsin (sqrt a))"

text \<open>The value of the column \<^verbatim>\<open>distance_km\<close> in a row: NaN where a coordinate is NaN.\<close>

definition distance_km_of :: "real \<Rightarrow> real \<Rightarrow> tagged \<Rightarrow> cell" where
  "distance_km_of LATS_vent LONGS_vent r =
     (case (latitude r, longitude r) of
        (Num la, Num lo) \<Rightarrow> Num (haversine_km LATS_vent LONGS_vent la lo)
      | _ \<Rightarrow> Blank)"

text \<open>
  What \<^verbatim>\<open>get_layout\<close> leaves behind: the message that no file was found, the message that
  nothing passed the filter, or the frame \<^verbatim>\<open>filtered\<close>, each row with its distance.
\<close>

datatype layout = NoDataFiles | NoAnomalies | Filtered "(tagged \<times> cell) list"

text \<open>
  \<^verbatim>\<open>pd.to_datetime(cfg.get(key), dayfirst=True)\<close>: for a key that is missing the
  argument is \<^verbatim>\<open>None\<close> and so is the result; a value that is present goes to the
  parser of the library, which gives the timestamp in minutes or raises. The parser is a
  parameter of the model.
\<close>

definition to_datetime_opt ::
  "(cfgval \<Rightarrow> py_error + int) \<Rightarrow> cfgval option \<Rightarrow> py_error + int option" where
  "to_datetime_opt to_datetime v =
     (case v of
        None \<Rightarrow> Inr None
      | Some x \<Rightarrow> (case to_datetime x of Inl e \<Rightarrow> Inl e | Inr t \<Rightarrow> Inr (Some t)))"

text \<open>
  \<open>comb\<close> is what \<^verbatim>\<open>load_and_tag_data\<close> returned. The window is read after the test for
  an empty frame. The thresholds are first used in the filter; there the column
  \<^verbatim>\<open>date\<close> is compared with the bounds of the window, and the comparison with \<^verbatim>\<open>None\<close>
  raises \<^verbatim>\<open>TypeError\<close>. The vent coordinates are first used in the products of line
  93, after the test for an empty result.
\<close>

definition get_layout ::
  "(cfgval \<Rightarrow> py_error + int) \<Rightarrow> config \<Rightarrow> tagged list \<Rightarrow> py_error + layout" where
  "get_layout to_datetime cfg comb =
     (let LATS_vent = cfg_get cfg ''lats_vent'' (CFloat 0.0);
          LONGS_vent = cfg_get cfg ''longs_vent'' (CFloat 0.0)
      in if comb = [] then Inr NoDataFiles
         else
           case to_datetime_opt to_datetime (cfg ''start_day_str'') of
             Inl e \<Rightarrow> Inl e
           | Inr start_dt \<Rightarrow>
           case to_datetime_opt to_datetime (cfg ''end_day_str'') of
             Inl e \<Rightarrow> Inl e
           | Inr end_dt \<Rightarrow>
           case as_number (cfg_get cfg ''filter_track'' (CFloat 1.0)) of
             Inl e \<Rightarrow> Inl e
           | Inr max_track \<Rightarrow>
           case as_number (cfg_get cfg ''filter_frp'' (CFloat 0.0)) of
             Inl e \<Rightarrow> Inl e
           | Inr min_frp \<Rightarrow>
           case start_dt of
             None \<Rightarrow> Inl TypeError
           | Some start_dt \<Rightarrow>
           case end_dt of
             None \<Rightarrow> Inl TypeError
           | Some end_dt \<Rightarrow>
               let filtered = sort_key date (filter (passes max_track min_frp start_dt end_dt) comb)
               in if filtered = [] then Inr NoAnomalies
                  else
                    case as_number LATS_vent of
                      Inl e \<Rightarrow> Inl e
                    | Inr lat1 \<Rightarrow>
                    case as_number LONGS_vent of
                      Inl e \<Rightarrow> Inl e
                    | Inr lon1 \<Rightarrow>
                        Inr (Filtered (map (\<lambda>r. (r, distance_km_of lat1 lon1 r)) filtered)))"

text \<open>The rows of \<^verbatim>\<open>filtered\<close> in an outcome; the two messages stand for no row.\<close>

fun filtered_rows :: "layout \<Rightarrow> tagged list" where
  "filtered_rows (Filtered rows) = map fst rows"
| "filtered_rows out = []"

text \<open>
  The distance in the words of the specification: angles in radians, the reference point
  first, \<open>a = sin\<^sup>2(\<Delta>lat/2) + cos lat1 \<sqdot> cos lat2 \<sqdot> sin\<^sup>2(\<Delta>lon/2)\<close> and the distance
  \<open>2 \<sqdot> R \<sqdot> asin (\<surd>a)\<close> with \<open>R = 6371.0\<close> km.
\<close>

definition radians :: "real \<Rightarrow> real" where
  "radians deg = deg * pi / 180"

definition great_circle_km :: "real \<Rightarrow> real \<Rightarrow> real \<Rightarrow> real \<Rightarrow> real" where
  "great_circle_km lat1 lon1 lat2 lon2 =
     2 * 6371.0 * arcsin (sqrt ((sin ((lat2 - lat1) / 2))\<^sup>2 +
                               cos lat1 * cos lat2 * (sin ((lon2 - lon1) / 2))\<^sup>2))"

section \<open>Breakthrough tracking: cumulative maximum and propagation speed\<close>

text \<open>
  The model follows \<^verbatim>\<open>process_speed_data\<close> of \<^verbatim>\<open>LavaFlow_speed.py\<close>, column by column.
  A row of \<^verbatim>\<open>max_distance_per_day_VIIRS.csv\<close> has a calendar day, a satellite and the
  largest distance of that day and satellite. A float column that can hold NaN or an
  infinity has values of type \<open>fl\<close>; finite floats are idealised as reals.
\<close>

record extent_row =
  date_only :: int
  satellite_name :: string
  distance_km :: real

datatype fl = Val real | PInf | NInf | NaN

text \<open>
  Division of two float columns: pandas raises nothing, a finite number over zero is an
  infinity of its sign, zero over zero and anything with NaN is NaN.
\<close>

fun fdiv :: "real \<Rightarrow> fl \<Rightarrow> fl" where
  "fdiv x (Val t) =
     (if t \<noteq> 0 then Val (x / t)
      else if 0 < x then PInf else if x < 0 then NInf else NaN)"
| "fdiv x PInf = Val 0"
| "fdiv x NInf = Val 0"
| "fdiv x NaN = NaN"

text \<open>\<^verbatim>\<open>.cummax()\<close>: the running maximum, the first value as it is.\<close>

fun cummax_from :: "real \<Rightarrow> real list \<Rightarrow> real list" where
  "cummax_from m [] = []"
| "cummax_from m (x # xs) = max m x # cummax_from (max m x) xs"

fun cummax :: "real list \<Rightarrow> real list" where
  "cummax [] = []"
| "cummax (x # xs) = x # cummax_from x xs"

text \<open>\<^verbatim>\<open>.shift(1, fill_value=...)\<close>: every value moves one row down, the last one is lost.\<close>

definition shift1 :: "'a \<Rightarrow> 'a list \<Rightarrow> 'a list" where
  "shift1 fill_value xs = take (length xs) (fill_value # xs)"

text \<open>
  \<^verbatim>\<open>processed['date'].diff().dt.total_seconds() / 3600\<close>: nothing for the first row, then
  the hours from the row before; the dates are days at midnight.
\<close>

fun diff_hours :: "int list \<Rightarrow> fl list" where
  "diff_hours [] = []"
| "diff_hours (d # ds) =
     NaN # map2 (\<lambda>prev cur. Val (real_of_int ((cur - prev) * 86400) / 3600)) (d # ds) ds"

text \<open>A row of the frame \<^verbatim>\<open>processed\<close> once the speed columns are there.\<close>

record event =
  ev_row :: extent_row
  max_distance :: real
  prev_max :: real
  time_diff :: fl
  distance_diff :: real
  speed :: fl

text \<open>
  The sorted frame with its columns \<^verbatim>\<open>max_distance\<close> and \<^verbatim>\<open>prev_max\<close>, row by row.
  \<^verbatim>\<open>sort_values('date')\<close> is modelled by a sort that keeps rows of one date in the order
  of the file, as pandas does on the short frames of the examples.
\<close>

definition with_maxima :: "extent_row list \<Rightarrow> (extent_row \<times> real \<times> real) list" where
  "with_maxima rows =
     (let df = sort_key date_only rows;
          max_distance = cummax (map distance_km df);
          prev_max = shift1 0 max_distance
      in zip df (zip max_distance prev_max))"

text \<open>The rows that reach a new maximum: \<^verbatim>\<open>df[df['distance_km'] > df['prev_max']]\<close>.\<close>

definition new_maxima :: "extent_row list \<Rightarrow> (extent_row \<times> real \<times> real) list" where
  "new_maxima rows = filter (\<lambda>(r, m, p). distance_km r > p) (with_maxima rows)"

definition breakthroughs :: "extent_row list \<Rightarrow> event list" where
  "breakthroughs rows =
     (let processed = new_maxima rows
      in if processed \<noteq> [] then
           let time_diff = diff_hours (map (\<lambda>(r, m, p). date_only r) processed);
               distance_diff = map (\<lambda>(r, m, p). (m - p) * 1000) processed;
               speed = map2 fdiv distance_diff time_diff
           in map (\<lambda>((r, m, p), td, dd, sp).
                     \<lparr>ev_row = r, max_distance = m, prev_max = p,
                      time_diff = td, distance_diff = dd, speed = sp\<rparr>)
                  (zip processed (zip time_diff (zip distance_diff speed)))
         else [])"

text \<open>Without the input file the function returns \<^verbatim>\<open>None\<close>.\<close>

definition process_speed_data :: "extent_row list option \<Rightarrow> event list option" where
  "process_speed_data input_file = map_option breakthroughs input_file"

section \<open>Auxiliary notions for the statements\<close>

text \<open>
  The order in which the rows of the frame with maxima follow each other: the dates do not
  decrease, and the maximum of a row is at most the previous maximum of any later row.
\<close>

definition frame_le :: "extent_row \<times> real \<times> real \<Rightarrow> extent_row \<times> real \<times> real \<Rightarrow> bool" where
  "frame_le a b = (date_only (fst a) \<le> date_only (fst b) \<and> fst (snd a) \<le> snd (snd b))"

text \<open>
  Row \<open>i\<close> of \<^verbatim>\<open>processed\<close> with its speed columns, read off the columns at index \<open>i\<close>.
\<close>

definition event_at :: "(extent_row \<times> real \<times> real) list \<Rightarrow> nat \<Rightarrow> event" where
  "event_at processed i =
     (case processed ! i of (r, m, p) \<Rightarrow>
        \<lparr>ev_row = r, max_distance = m, prev_max = p,
         time_diff = diff_hours (map (\<lambda>(r, m, p). date_only r) processed) ! i,
         distance_diff = (m - p) * 1000,
         speed = fdiv ((m - p) * 1000) (diff_hours (map (\<lambda>(r, m, p). date_only r) processed) ! i)\<rparr>)"

text \<open>A configuration value that is present and is a text.\<close>

fun is_text :: "cfgval option \<Rightarrow> bool" where
  "is_text (Some (CStr s)) = True"
| "is_text v = False"


text \<open>
  The defaults of the four \<^verbatim>\<open>cfg.get\<close> calls for the reference point and the thresholds,
  as a configuration of their own.
\<close>

definition defaults :: config where
  "defaults =
     [''lats_vent'' \<mapsto> CFloat 0.0, ''longs_vent'' \<mapsto> CFloat 0.0,
      ''filter_track'' \<mapsto> CFloat 1.0, ''filter_frp'' \<mapsto> CFloat 0.0]"

section \<open>Example inputs\<close>

text \<open>
  Three archived rows, two of day 10 and one of day 9, and batch rows of day 10 and 11.
  \<open>batch_0930\<close> is \<open>hist_0930\<close> downloaded again with jitter in the fifth decimal.
\<close>

definition hist_0930 :: detection where
  "hist_0930 = \<lparr>acq_date = 10, acq_time = ''930'', latitude = Num 1.5, longitude = Num 2.5,
     frp = Num 12, track = Num 0.4\<rparr>"

definition hist_1015 :: detection where
  "hist_1015 = \<lparr>acq_date = 10, acq_time = ''1015'', latitude = Num 1.6, longitude = Num 2.5,
     frp = Num 7, track = Num 0.4\<rparr>"

definition hist_day9 :: detection where
  "hist_day9 = \<lparr>acq_date = 9, acq_time = ''5'', latitude = Num 1.5, longitude = Num 2.5,
     frp = Num 3, track = Num 0.4\<rparr>"

definition batch_0930 :: detection where
  "batch_0930 = \<lparr>acq_date = 10, acq_time = ''930'', latitude = Num 1.50001, longitude = Num 2.5,
     frp = Num 11, track = Num 0.4\<rparr>"

definition batch_bad_frp :: detection where
  "batch_bad_frp = \<lparr>acq_date = 11, acq_time = ''1200'', latitude = Num 1.5, longitude = Num 2.5,
     frp = Txt ''n/a'', track = Num 0.4\<rparr>"

definition batch_bad_lat :: detection where
  "batch_bad_lat = \<lparr>acq_date = 11, acq_time = ''1210'', latitude = Txt ''n/a'', longitude = Num 2.5,
     frp = Num 4, track = Num 0.4\<rparr>"

lemmas download_eval =
  process_source_def merge_existing_def cleaned_def Let_def pad_time_def zfill_def
  unique_dates_def refresh_window_def coerce_lat_lon_def dropna_def drop_duplicates_def
  dedup_key_def round4_def rint_def
  hist_0930_def hist_1015_def hist_day9_def batch_0930_def batch_bad_frp_def batch_bad_lat_def

text \<open>
  A file with four rows of one satellite, as the archive holds them, and the frame that
  loading it gives.
\<close>

definition snpp_file :: "detection list" where
  "snpp_file =
     [\<lparr>acq_date = 10, acq_time = ''1200'', latitude = Num 0, longitude = Num 0.01,
       frp = Num 5, track = Num 0.4\<rparr>,
      \<lparr>acq_date = 10, acq_time = ''930'', latitude = Num 0, longitude = Num 0,
       frp = Num 8, track = Num 0.5\<rparr>,
      \<lparr>acq_date = 10, acq_time = ''1300'', latitude = Num 0, longitude = Num 0,
       frp = Txt ''n/a'', track = Num 0.4\<rparr>,
      \<lparr>acq_date = 10, acq_time = ''1400'', latitude = Num 0, longitude = Num 0,
       frp = Num 9, track = Num 1.5\<rparr>]"

definition one_snpp_file :: "string \<Rightarrow> detection list list" where
  "one_snpp_file pattern = (if pattern = ''*SNPP*.csv'' then [snpp_file] else [])"

definition tagged_1200 :: tagged where
  "tagged_1200 = \<lparr>acq_date = 10, acq_time = ''1200'', latitude = Num 0, longitude = Num 0.01,
       frp = Num 5, track = Num 0.4, date = 15120, satellite = ''SNPP'', source = 1\<rparr>"

definition tagged_0930 :: tagged where
  "tagged_0930 = \<lparr>acq_date = 10, acq_time = ''930'', latitude = Num 0, longitude = Num 0,
       frp = Num 8, track = Num 0.5, date = 14970, satellite = ''SNPP'', source = 1\<rparr>"

definition tagged_1300 :: tagged where
  "tagged_1300 = \<lparr>acq_date = 10, acq_time = ''1300'', latitude = Num 0, longitude = Num 0,
       frp = Blank, track = Num 0.4, date = 15180, satellite = ''SNPP'', source = 1\<rparr>"

definition tagged_1400 :: tagged where
  "tagged_1400 = \<lparr>acq_date = 10, acq_time = ''1400'', latitude = Num 0, longitude = Num 0,
       frp = Num 9, track = Num 1.5, date = 15240, satellite = ''SNPP'', source = 1\<rparr>"

definition snpp_comb :: "tagged list" where
  "snpp_comb = [tagged_1200, tagged_0930, tagged_1300, tagged_1400]"

text \<open>
  A configuration with the analysis window and nothing else, and the same with a track
  threshold that is a text. Day 0 is 1 January 2024, so the window ends at day 731. The
  example parser knows the two texts of the window; the examples give it no other value.
\<close>

definition window_only :: config where
  "window_only k =
     (if k = ''start_day_str'' then Some (CStr ''01/01/2024 00:00'')
      else if k = ''end_day_str'' then Some (CStr ''01/01/2026 00:00'')
      else None)"

definition text_threshold :: config where
  "text_threshold k =
     (if k = ''filter_track'' then Some (CStr ''narrow'') else window_only k)"

fun parse_window :: "cfgval \<Rightarrow> py_error + int" where
  "parse_window (CStr s) =
     (if s = ''01/01/2024 00:00'' then Inr 0
      else if s = ''01/01/2026 00:00'' then Inr 1052640
      else Inl ValueError)"
| "parse_window v = Inl TypeError"

lemmas mapper_eval =
  load_and_tag_data_def configs_def one_snpp_file_def snpp_file_def tag_file_def
  tag_row_def strptime_hhmm_def zfill_def is_digit_def digit_def get_layout_def cfg_get_def Let_def
  to_datetime_opt_def window_only_def text_threshold_def
  passes_def snpp_comb_def tagged_1200_def tagged_0930_def tagged_1300_def tagged_1400_def

text \<open>
  Daily extents: two satellites on one day; three days out of order with a day that does
  not extend the front; two satellites on the second day.
\<close>

definition same_day_rows :: "extent_row list" where
  "same_day_rows =
     [\<lparr>date_only = 1, satellite_name = ''NOAA20'', distance_km = 1\<rparr>,
      \<lparr>date_only = 1, satellite_name = ''SNPP'', distance_km = 2\<rparr>]"

definition three_day_rows :: "extent_row list" where
  "three_day_rows =
     [\<lparr>date_only = 3, satellite_name = ''SNPP'', distance_km = 3 / 2\<rparr>,
      \<lparr>date_only = 1, satellite_name = ''SNPP'', distance_km = 1\<rparr>,
      \<lparr>date_only = 2, satellite_name = ''NOAA20'', distance_km = 1 / 2\<rparr>]"

definition three_day_events :: "event list" where
  "three_day_events =
     [\<lparr>ev_row = \<lparr>date_only = 1, satellite_name = ''SNPP'', distance_km = 1\<rparr>,
        max_distance = 1, prev_max = 0, time_diff = NaN, distance_diff = 1000, speed = NaN\<rparr>,
      \<lparr>ev_row = \<lparr>date_only = 3, satellite_name = ''SNPP'', distance_km = 3 / 2\<rparr>,
        max_distance = 3 / 2, prev_max = 1, time_diff = Val 48, distance_diff = 500,
        speed = Val (500 / 48)\<rparr>]"

definition two_satellite_rows :: "extent_row list" where
  "two_satellite_rows =
     [\<lparr>date_only = 1, satellite_name = ''SNPP'', distance_km = 1\<rparr>,
      \<lparr>date_only = 2, satellite_name = ''NOAA21'', distance_km = 2\<rparr>,
      \<lparr>date_only = 2, satellite_name = ''SNPP'', distance_km = 7 / 2\<rparr>]"

lemmas speed_eval =
  process_speed_data_def breakthroughs_def new_maxima_def with_maxima_def shift1_def Let_def
  same_day_rows_def three_day_rows_def three_day_events_def two_satellite_rows_def

section \<open>Properties of the refresh-window merge\<close>

subsection \<open>Padding, coercion and deduplication\<close>

lemma zfill_idem: "zfill w (zfill w s) = zfill w s"
  by (simp add: zfill_def)

lemma pad_time_idem: "pad_time (pad_time r) = pad_time r"
  by (simp add: pad_time_def zfill_idem)

lemma to_numeric_idem: "to_numeric (to_numeric c) = to_numeric c"
  by (cases c) simp_all

lemma coerce_lat_lon_idem: "coerce_lat_lon (coerce_lat_lon r) = coerce_lat_lon r"
  by (simp add: coerce_lat_lon_def to_numeric_idem)

lemma drop_dups_from_subset: "set (drop_dups_from key seen xs) \<subseteq> set xs"
  by (induction xs arbitrary: seen) auto

lemma drop_dups_from_fresh: "x \<in> set (drop_dups_from key seen xs) \<Longrightarrow> key x \<notin> set seen"
proof (induction xs arbitrary: seen)
  case Nil
  then show ?case by simp
next
  case (Cons a xs)
  show ?case
  proof (cases "key a \<in> set seen")
    case True
    with Cons show ?thesis by simp
  next
    case False
    with Cons.prems have "x = a \<or> x \<in> set (drop_dups_from key (key a # seen) xs)" by simp
    then show ?thesis
    proof
      assume "x = a" with False show ?thesis by simp
    next
      assume "x \<in> set (drop_dups_from key (key a # seen) xs)"
      from Cons.IH [OF this] show ?thesis by simp
    qed
  qed
qed

lemma drop_dups_from_distinct: "distinct (map key (drop_dups_from key seen xs))"
  by (induction xs arbitrary: seen) (auto dest: drop_dups_from_fresh)

lemma drop_dups_from_cong: "set seen = set seen' \<Longrightarrow> drop_dups_from key seen xs = drop_dups_from key seen' xs"
proof (induction xs arbitrary: seen seen')
  case Nil
  show ?case by simp
next
  case (Cons x xs)
  have "set (key x # seen) = set (key x # seen')" using Cons.prems by simp
  then have "drop_dups_from key (key x # seen) xs = drop_dups_from key (key x # seen') xs"
    by (rule Cons.IH)
  moreover have "drop_dups_from key seen xs = drop_dups_from key seen' xs"
    using Cons.prems by (rule Cons.IH)
  ultimately show ?case using Cons.prems by simp
qed

lemma drop_dups_from_find:
  "find (\<lambda>x. key x = k) (drop_dups_from key seen xs) =
     (if k \<in> set seen then None else find (\<lambda>x. key x = k) xs)"
  by (induction xs arbitrary: seen) auto

lemma drop_dups_from_irrelevant:
  "key ` set xs \<inter> set extra = {} \<Longrightarrow>
     drop_dups_from key (extra @ seen) xs = drop_dups_from key seen xs"
proof (induction xs arbitrary: seen)
  case Nil
  then show ?case by simp
next
  case (Cons x xs)
  have eq: "drop_dups_from key (key x # extra @ seen) xs = drop_dups_from key (extra @ key x # seen) xs"
    by (rule drop_dups_from_cong) auto
  from Cons.prems have "key x \<notin> set extra" "key ` set xs \<inter> set extra = {}" by auto
  with Cons.IH show ?case by (simp add: eq)
qed

lemma drop_dups_from_append:
  "drop_dups_from key seen (xs @ ys) =
     drop_dups_from key seen xs @ drop_dups_from key (map key xs @ seen) ys"
proof (induction xs arbitrary: seen)
  case Nil
  then show ?case by simp
next
  case (Cons x xs)
  have a: "drop_dups_from key (map key xs @ key x # seen) ys = drop_dups_from key (key x # map key xs @ seen) ys"
    by (rule drop_dups_from_cong) auto
  have b: "key x \<in> set seen \<Longrightarrow> drop_dups_from key (key x # map key xs @ seen) ys = drop_dups_from key (map key xs @ seen) ys"
    by (rule drop_dups_from_cong) auto
  show ?case using Cons.IH a b by auto
qed

lemma drop_duplicates_append_disjoint:
  assumes "key ` set xs \<inter> key ` set ys = {}"
  shows "drop_duplicates key (xs @ ys) = drop_duplicates key xs @ drop_duplicates key ys"
proof -
  have "drop_dups_from key (map key xs @ []) ys = drop_dups_from key [] ys"
    using assms by (intro drop_dups_from_irrelevant) auto
  then show ?thesis by (simp add: drop_duplicates_def drop_dups_from_append)
qed

lemma drop_dups_from_id:
  "distinct (map key xs) \<Longrightarrow> key ` set xs \<inter> set seen = {} \<Longrightarrow> drop_dups_from key seen xs = xs"
  by (induction xs arbitrary: seen) auto

lemma drop_duplicates_idem: "drop_duplicates key (drop_duplicates key xs) = drop_duplicates key xs"
  unfolding drop_duplicates_def
  by (rule drop_dups_from_id) (simp_all add: drop_dups_from_distinct)

lemma acq_date_pad_time [simp]: "acq_date (pad_time r) = acq_date r"
  by (simp add: pad_time_def)

lemma acq_date_coerce [simp]: "acq_date (coerce_lat_lon r) = acq_date r"
  by (simp add: coerce_lat_lon_def)

lemma set_unique_dates [simp]: "set (unique_dates df) = acq_date ` set df"
  by (simp add: unique_dates_def)

lemma drop_duplicates_subset: "set (drop_duplicates key xs) \<subseteq> set xs"
  by (simp add: drop_duplicates_def drop_dups_from_subset)

lemma dedup_key_date: "dedup_key r = dedup_key r' \<Longrightarrow> acq_date r = acq_date r'"
  by (simp add: dedup_key_def)

lemma acq_date_cleaned: "acq_date ` set (cleaned df) \<subseteq> acq_date ` set df"
proof -
  have "set (cleaned df) \<subseteq> set (map coerce_lat_lon df)"
    unfolding cleaned_def dropna_def using drop_duplicates_subset [of dedup_key] by fastforce
  then show ?thesis by force
qed

lemma merge_existing_split:
  "merge_existing df_new df_hist =
     cleaned (refresh_window (unique_dates df_new) (map pad_time df_hist)) @ cleaned df_new"
proof -
  let ?old = "refresh_window (unique_dates df_new) (map pad_time df_hist)"
  have dates_old: "acq_date ` set ?old \<inter> acq_date ` set df_new = {}"
    by (auto simp: refresh_window_def)
  have "dedup_key ` set (dropna (map coerce_lat_lon ?old)) \<inter>
        dedup_key ` set (dropna (map coerce_lat_lon df_new)) = {}"
  proof (rule ccontr)
    assume "\<not> ?thesis"
    then obtain k where "k \<in> dedup_key ` set (dropna (map coerce_lat_lon ?old))"
      and "k \<in> dedup_key ` set (dropna (map coerce_lat_lon df_new))" by blast
    then obtain a b where a: "a \<in> set (dropna (map coerce_lat_lon ?old))"
      and b: "b \<in> set (dropna (map coerce_lat_lon df_new))"
      and k: "dedup_key a = dedup_key b" by force
    from a have "acq_date a \<in> acq_date ` set ?old" by (auto simp: dropna_def)
    moreover from b have "acq_date b \<in> acq_date ` set df_new" by (auto simp: dropna_def)
    moreover from k have "acq_date a = acq_date b" by (rule dedup_key_date)
    ultimately show False using dates_old by auto
  qed
  then have "drop_duplicates dedup_key
               (dropna (map coerce_lat_lon ?old) @ dropna (map coerce_lat_lon df_new)) =
             cleaned ?old @ cleaned df_new"
    unfolding cleaned_def by (rule drop_duplicates_append_disjoint)
  then show ?thesis
    by (simp add: merge_existing_def Let_def dropna_def)
qed

subsection \<open>The merge into an existing archive\<close>

lemma process_source_existing:
  "df_new \<noteq> [] \<Longrightarrow>
   process_source (200, df_new) (Some df_hist) =
     (Some (merge_existing (map pad_time df_new) df_hist),
      RecordsMerged (length df_new) (length (merge_existing (map pad_time df_new) df_hist)))"
  by (simp add: process_source_def Let_def)

lemma process_source_absent:
  "df_new \<noteq> [] \<Longrightarrow>
   process_source (200, df_new) None =
     (Some (map pad_time df_new), RecordsMerged (length df_new) (length df_new))"
  by (simp add: process_source_def Let_def)

text \<open>
  Claim C1. For a non-empty batch and an existing archive, the archive written is the rows
  kept from the old archive followed by what the batch alone yields: the kept rows are the
  padded old rows whose date is not a date of the batch (cleaned), so no old row of a batch
  date is left when the batch is appended, however few rows the batch has for that date.
\<close>

theorem refresh_window_replaces_dates:
  assumes "df_new \<noteq> []"
  shows "\<exists>old entry.
           process_source (200, df_new) (Some df_hist) =
             (Some (old @ cleaned (map pad_time df_new)), entry) \<and>
           old = cleaned [r \<leftarrow> map pad_time df_hist. acq_date r \<notin> acq_date ` set df_new] \<and>
           (\<forall>r \<in> set old. acq_date r \<notin> acq_date ` set df_new) \<and>
           (\<forall>r \<in> set (cleaned (map pad_time df_new)). acq_date r \<in> acq_date ` set df_new)"
proof -
  let ?kept = "[r \<leftarrow> map pad_time df_hist. acq_date r \<notin> acq_date ` set df_new]"
  have rw: "refresh_window (unique_dates (map pad_time df_new)) (map pad_time df_hist) = ?kept"
    by (simp add: refresh_window_def image_image)
  have "acq_date ` set (cleaned ?kept) \<subseteq> acq_date ` set ?kept" by (rule acq_date_cleaned)
  then have old: "\<forall>r \<in> set (cleaned ?kept). acq_date r \<notin> acq_date ` set df_new" by auto
  have "acq_date ` set (cleaned (map pad_time df_new)) \<subseteq> acq_date ` set (map pad_time df_new)"
    by (rule acq_date_cleaned)
  then have new: "\<forall>r \<in> set (cleaned (map pad_time df_new)). acq_date r \<in> acq_date ` set df_new"
    by (auto simp: image_image)
  have "process_source (200, df_new) (Some df_hist) =
          (Some (cleaned ?kept @ cleaned (map pad_time df_new)),
           RecordsMerged (length df_new) (length (cleaned ?kept @ cleaned (map pad_time df_new))))"
    by (simp only: process_source_existing [OF assms] merge_existing_split rw)
  with old new show ?thesis by blast
qed

theorem refresh_window_replaces_dates_witness:
  "[batch_0930] \<noteq> [] \<and>
   fst (process_source (200, [batch_0930]) (Some [hist_0930, hist_1015, hist_day9])) =
     Some [pad_time hist_day9, pad_time batch_0930]"
proof -
  have ne: "[batch_0930] \<noteq> []" by simp
  from refresh_window_replaces_dates [OF ne, of "[hist_0930, hist_1015, hist_day9]"]
  obtain old entry where
    ps: "process_source (200, [batch_0930]) (Some [hist_0930, hist_1015, hist_day9]) =
           (Some (old @ cleaned (map pad_time [batch_0930])), entry)"
    and old: "old = cleaned [r \<leftarrow> map pad_time [hist_0930, hist_1015, hist_day9].
                               acq_date r \<notin> acq_date ` set [batch_0930]]"
    by blast
  have "old = [pad_time hist_day9]"
    unfolding old by (simp add: download_eval)
  moreover have "cleaned (map pad_time [batch_0930]) = [pad_time batch_0930]"
    by (simp add: download_eval)
  ultimately show ?thesis using ps by simp
qed

lemma dropna_id:
  "\<forall>r \<in> set df. latitude r \<noteq> Blank \<and> longitude r \<noteq> Blank \<Longrightarrow> dropna df = df"
  by (simp add: dropna_def)

lemma cleaned_idem: "cleaned (cleaned df) = cleaned df"
proof -
  let ?z = "dropna (map coerce_lat_lon df)"
  have sub: "set (cleaned df) \<subseteq> set ?z"
    unfolding cleaned_def by (rule drop_duplicates_subset)
  have z: "\<forall>r \<in> set ?z. coerce_lat_lon r = r \<and> latitude r \<noteq> Blank \<and> longitude r \<noteq> Blank"
    by (auto simp: dropna_def coerce_lat_lon_idem)
  from sub z have c: "map coerce_lat_lon (cleaned df) = cleaned df"
    by (intro map_idI) auto
  from sub z have "\<forall>r \<in> set (cleaned df). latitude r \<noteq> Blank \<and> longitude r \<noteq> Blank"
    by blast
  then have n: "dropna (cleaned df) = cleaned df"
    by (rule dropna_id)
  have "cleaned (cleaned df) = drop_duplicates dedup_key (cleaned df)"
    by (simp only: cleaned_def [of "cleaned df"] c n)
  also have "\<dots> = cleaned df"
    by (simp only: cleaned_def [of df] drop_duplicates_idem)
  finally show ?thesis .
qed

lemma pad_time_coerce: "pad_time (coerce_lat_lon r) = coerce_lat_lon (pad_time r)"
  by (simp add: pad_time_def coerce_lat_lon_def)

lemma cleaned_padded:
  assumes "\<forall>r \<in> set df. pad_time r = r"
  shows "map pad_time (cleaned df) = cleaned df"
proof -
  have "set (cleaned df) \<subseteq> set (map coerce_lat_lon df)"
    unfolding cleaned_def dropna_def using drop_duplicates_subset [of dedup_key] by fastforce
  with assms have "\<forall>r \<in> set (cleaned df). pad_time r = r"
    by (auto simp: pad_time_coerce)
  then show ?thesis by (intro map_idI) auto
qed

lemma refresh_window_all: "\<forall>r \<in> set df. acq_date r \<notin> set ds \<Longrightarrow> refresh_window ds df = df"
  by (simp add: refresh_window_def)

lemma refresh_window_none: "\<forall>r \<in> set df. acq_date r \<in> set ds \<Longrightarrow> refresh_window ds df = []"
  by (simp add: refresh_window_def)

lemma refresh_window_append:
  "refresh_window ds (xs @ ys) = refresh_window ds xs @ refresh_window ds ys"
  by (simp add: refresh_window_def)

lemma merge_existing_idempotent:
  assumes "\<forall>r \<in> set df_new. pad_time r = r"
  shows "merge_existing df_new (merge_existing df_new df_hist) = merge_existing df_new df_hist"
proof -
  let ?dates = "unique_dates df_new"
  let ?kept = "refresh_window ?dates (map pad_time df_hist)"
  let ?A = "cleaned ?kept" and ?B = "cleaned df_new"
  have kept_padded: "\<forall>r \<in> set ?kept. pad_time r = r"
    by (auto simp: refresh_window_def pad_time_idem)
  have pad: "map pad_time (?A @ ?B) = ?A @ ?B"
    using cleaned_padded [OF kept_padded] cleaned_padded [OF assms] by simp
  have "acq_date ` set ?A \<subseteq> acq_date ` set ?kept" by (rule acq_date_cleaned)
  then have A: "\<forall>r \<in> set ?A. acq_date r \<notin> set ?dates"
    by (auto simp: refresh_window_def)
  have "acq_date ` set ?B \<subseteq> acq_date ` set df_new" by (rule acq_date_cleaned)
  then have B: "\<forall>r \<in> set ?B. acq_date r \<in> set ?dates" by auto
  have fa: "refresh_window ?dates ?A = ?A"
    using A by (rule refresh_window_all)
  have fb: "refresh_window ?dates ?B = []"
    using B by (rule refresh_window_none)
  have "refresh_window ?dates (?A @ ?B) = refresh_window ?dates ?A @ refresh_window ?dates ?B"
    by (rule refresh_window_append)
  then have r: "refresh_window ?dates (map pad_time (?A @ ?B)) = ?A"
    by (simp only: pad fa fb append_Nil2)
  have "merge_existing df_new (?A @ ?B) = cleaned ?A @ ?B"
    by (simp only: merge_existing_split [of df_new "?A @ ?B"] r)
  then show ?thesis
    by (simp only: merge_existing_split [of df_new df_hist] cleaned_idem)
qed

lemma process_source_idempotent:
  assumes "df_new \<noteq> []"
    and "process_source (200, df_new) (Some df_hist) = (Some once, entry)"
    and "process_source (200, df_new) (Some once) = (Some twice, entry')"
  shows "twice = once"
proof -
  have p: "\<forall>r \<in> set (map pad_time df_new). pad_time r = r"
    by (simp add: pad_time_idem)
  from assms(1,2) have once: "once = merge_existing (map pad_time df_new) df_hist"
    by (simp add: process_source_existing)
  from assms(1,3) have "twice = merge_existing (map pad_time df_new) once"
    by (simp add: process_source_existing)
  then show ?thesis
    unfolding once by (simp only: merge_existing_idempotent [OF p])
qed

lemma merge_existing_distinct_keys: "distinct (map dedup_key (merge_existing df_new df_hist))"
  by (simp add: merge_existing_def Let_def drop_duplicates_def drop_dups_from_distinct)

lemma drop_duplicates_find:
  "find (\<lambda>x. key x = k) (drop_duplicates key xs) = find (\<lambda>x. key x = k) xs"
  by (simp add: drop_duplicates_def drop_dups_from_find)

text \<open>
  Claim C2. Into an existing archive the merge writes rows of pairwise distinct keys, the
  first row of each key (\<open>merge_existing_distinct_keys\<close>, \<open>drop_duplicates_find\<close>). The
  first download, with no archive file, writes the batch as it is: two rows of one key,
  \<open>hist_0930\<close> and its jittered copy \<open>batch_0930\<close>, are both in the archive.
\<close>

theorem first_download_keeps_duplicates:
  "process_source (200, [hist_0930, batch_0930]) None =
     (Some [pad_time hist_0930, pad_time batch_0930], RecordsMerged 2 2) \<and>
   dedup_key (pad_time hist_0930) = dedup_key (pad_time batch_0930) \<and>
   pad_time hist_0930 \<noteq> pad_time batch_0930"
  by (simp add: download_eval)

text \<open>
  Claim C3. Merging a batch again into the archive its merge wrote changes nothing when the
  first merge was into an existing archive (\<open>process_source_idempotent\<close>). After a first
  download the second merge drops the duplicate that the first one wrote, and the record
  sets differ.
\<close>

theorem second_merge_changes_first_download:
  "fst (process_source (200, [hist_0930, batch_0930]) None) =
     Some [pad_time hist_0930, pad_time batch_0930] \<and>
   fst (process_source (200, [hist_0930, batch_0930])
          (Some [pad_time hist_0930, pad_time batch_0930])) = Some [pad_time hist_0930] \<and>
   set [pad_time hist_0930, pad_time batch_0930] \<noteq> set [pad_time hist_0930]"
  by (simp add: download_eval)

lemma drop_duplicates_keys: "key ` set (drop_duplicates key xs) = key ` set xs"
proof
  show "key ` set (drop_duplicates key xs) \<subseteq> key ` set xs"
    using drop_duplicates_subset [of key xs] by blast
next
  show "key ` set xs \<subseteq> key ` set (drop_duplicates key xs)"
  proof
    fix k assume "k \<in> key ` set xs"
    then have "find (\<lambda>x. key x = k) xs \<noteq> None"
      by (auto simp: find_None_iff)
    then have "find (\<lambda>x. key x = k) (drop_duplicates key xs) \<noteq> None"
      by (simp add: drop_duplicates_find)
    then show "k \<in> key ` set (drop_duplicates key xs)"
      by (auto simp: find_None_iff)
  qed
qed

lemma coerce_parsed:
  "latitude r = Num x \<Longrightarrow> longitude r = Num y \<Longrightarrow> coerce_lat_lon r = r"
  by (simp add: coerce_lat_lon_def)

lemma merge_existing_coordinates:
  "r \<in> set (merge_existing df_new df_hist) \<Longrightarrow> \<exists>x y. latitude r = Num x \<and> longitude r = Num y"
proof -
  assume "r \<in> set (merge_existing df_new df_hist)"
  then have "r \<in> set (dropna (map coerce_lat_lon
      (refresh_window (unique_dates df_new) (map pad_time df_hist) @ df_new)))"
    using drop_duplicates_subset [of dedup_key]
    by (auto simp add: merge_existing_def Let_def)
  then obtain r0 where r: "r = coerce_lat_lon r0"
    and nb: "latitude r \<noteq> Blank" "longitude r \<noteq> Blank"
    by (auto simp: dropna_def)
  from r nb show ?thesis
    by (cases "latitude r0"; cases "longitude r0") (simp_all add: coerce_lat_lon_def)
qed

text \<open>
  Claim C4, as amended. In a merge into an existing archive, every row written has a latitude
  and a longitude that parsed, so rows whose latitude or longitude does not parse are dropped,
  and no error is raised: the outcome is the merged archive with the log line. The log line
  counts the rows of the batch before anything is dropped and the rows of the archive
  written, and has no count of dropped rows. \<^verbatim>\<open>frp\<close> and \<^verbatim>\<open>track\<close> are not looked at:
  every batch row whose coordinates parse has its key in the archive written.
\<close>

theorem merge_drops_unparsable_coordinates:
  assumes "df_new \<noteq> []"
  shows "\<exists>df_final.
           process_source (200, df_new) (Some df_hist) =
             (Some df_final, RecordsMerged (length df_new) (length df_final)) \<and>
           (\<forall>r \<in> set df_final. \<exists>x y. latitude r = Num x \<and> longitude r = Num y) \<and>
           (\<forall>r \<in> set df_new. (\<exists>x y. latitude r = Num x \<and> longitude r = Num y) \<longrightarrow>
              dedup_key (pad_time r) \<in> dedup_key ` set df_final)"
proof -
  let ?new = "map pad_time df_new"
  let ?final = "merge_existing ?new df_hist"
  have a: "\<forall>r \<in> set ?final. \<exists>x y. latitude r = Num x \<and> longitude r = Num y"
    using merge_existing_coordinates by blast
  have b: "\<forall>r \<in> set df_new. (\<exists>x y. latitude r = Num x \<and> longitude r = Num y) \<longrightarrow>
              dedup_key (pad_time r) \<in> dedup_key ` set ?final"
  proof (intro ballI impI)
    fix r assume r: "r \<in> set df_new" and "\<exists>x y. latitude r = Num x \<and> longitude r = Num y"
    then obtain x y where "latitude (pad_time r) = Num x" "longitude (pad_time r) = Num y"
      by (auto simp: pad_time_def)
    then have c: "coerce_lat_lon (pad_time r) = pad_time r"
      and nb: "latitude (pad_time r) \<noteq> Blank" "longitude (pad_time r) \<noteq> Blank"
      by (simp_all add: coerce_parsed)
    from r have "coerce_lat_lon (pad_time r) \<in> set (map coerce_lat_lon ?new)" by simp
    with c nb have "pad_time r \<in> set (dropna (map coerce_lat_lon ?new))" 
      by (simp add: dropna_def)
    then have "dedup_key (pad_time r) \<in> dedup_key ` set (cleaned ?new)"
      unfolding cleaned_def by (simp only: drop_duplicates_keys) blast
    then show "dedup_key (pad_time r) \<in> dedup_key ` set ?final"
      by (auto simp: merge_existing_split)
  qed
  from a b show ?thesis
    by (simp only: process_source_existing [OF assms]) blast
qed

theorem merge_drops_unparsable_coordinates_witness:
  "[batch_bad_lat, batch_bad_frp] \<noteq> [] \<and>
   process_source (200, [batch_bad_lat, batch_bad_frp]) (Some [hist_day9]) =
     (Some [pad_time hist_day9, pad_time batch_bad_frp], RecordsMerged 2 2)"
proof -
  have ne: "[batch_bad_lat, batch_bad_frp] \<noteq> []" by simp
  from merge_drops_unparsable_coordinates [OF ne, of "[hist_day9]"]
  obtain df_final where
    ps: "process_source (200, [batch_bad_lat, batch_bad_frp]) (Some [hist_day9]) =
           (Some df_final, RecordsMerged (length [batch_bad_lat, batch_bad_frp]) (length df_final))"
    by blast
  have "fst (process_source (200, [batch_bad_lat, batch_bad_frp]) (Some [hist_day9])) =
          Some [pad_time hist_day9, pad_time batch_bad_frp]"
    by (simp add: download_eval)
  with ps have "df_final = [pad_time hist_day9, pad_time batch_bad_frp]" by simp
  with ps ne show ?thesis by simp
qed

text \<open>
  Claim C4 as stated fails: a batch row whose \<^verbatim>\<open>frp\<close> does not parse is written to the
  archive and counted among the records merged.
\<close>

theorem unparsable_frp_is_kept:
  "process_source (200, [batch_bad_frp]) (Some [hist_day9]) =
     (Some [pad_time hist_day9, pad_time batch_bad_frp], RecordsMerged 1 2) \<and>
   to_numeric (frp batch_bad_frp) = Blank"
  by (simp add: download_eval)

section \<open>Properties of the distance tagging\<close>

subsection \<open>Loading\<close>

lemma collect_Inr: "collect xs = Inr vs \<Longrightarrow> xs = map Inr vs"
proof (induction xs arbitrary: vs)
  case Nil
  then show ?case by simp
next
  case (Cons x xs)
  from Cons.prems obtain v ws where x: "x = Inr v" and c: "collect xs = Inr ws" and vs: "vs = v # ws"
    by (auto split: sum.splits)
  from Cons.IH [OF c] x vs show ?case by simp
qed

lemma tag_row_date:
  assumes "tag_row name ident r = Inr t"
  shows "\<exists>m. strptime_hhmm (zfill 4 (acq_time t)) = Inr m \<and> date t = 1440 * acq_date t + int m"
  using assms by (auto simp: tag_row_def split: sum.splits)

lemma tag_file_date:
  assumes "tag_file name ident df = Inr ts" and "t \<in> set ts"
  shows "\<exists>m. strptime_hhmm (zfill 4 (acq_time t)) = Inr m \<and> date t = 1440 * acq_date t + int m"
proof -
  from assms(1) have "map (tag_row name ident) df = map Inr ts"
    unfolding tag_file_def by (rule collect_Inr)
  then have "Inr t \<in> set (map (tag_row name ident) df)" using assms(2) by simp
  then obtain r where "tag_row name ident r = Inr t" by auto
  then show ?thesis by (rule tag_row_date)
qed

lemma load_and_tag_data_date:
  assumes "load_and_tag_data glob = Inr comb" and "t \<in> set comb"
  shows "\<exists>m. strptime_hhmm (zfill 4 (acq_time t)) = Inr m \<and> date t = 1440 * acq_date t + int m"
proof -
  let ?frames = "concat (map (\<lambda>(pattern, name, ident). map (tag_file name ident) (glob pattern)) configs)"
  from assms(1) obtain all_data where c: "collect ?frames = Inr all_data" and comb: "comb = concat all_data"
    by (auto simp: load_and_tag_data_def split: sum.splits)
  from comb assms(2) obtain ts where ts: "ts \<in> set all_data" and t: "t \<in> set ts" by auto
  from c have "?frames = map Inr all_data" by (rule collect_Inr)
  with ts have "Inr ts \<in> set ?frames" by simp
  then obtain name ident df where "tag_file name ident df = Inr ts" by auto
  then show ?thesis using t by (rule tag_file_date)
qed

subsection \<open>Configuration values\<close>

lemma as_number_text: "is_text (cfg k) \<Longrightarrow> as_number (cfg_get cfg k d) = Inl TypeError"
  by (cases "cfg k" rule: is_text.cases) (simp_all add: cfg_get_def)

lemma as_number_usable: "\<not> is_text (cfg k) \<Longrightarrow> \<exists>x. as_number (cfg_get cfg k (CFloat d)) = Inr x"
  by (cases "cfg k" rule: is_text.cases) (simp_all add: cfg_get_def)

lemma as_number_missing: "cfg k = None \<Longrightarrow> as_number (cfg_get cfg k (CFloat d)) = Inr d"
  by (simp add: cfg_get_def)

lemma to_datetime_opt_Some:
  "to_datetime_opt to_datetime v = Inr (Some t) \<longleftrightarrow> (\<exists>a. v = Some a \<and> to_datetime a = Inr t)"
  by (cases v) (auto simp: to_datetime_opt_def split: sum.splits)

lemma to_datetime_opt_present:
  "v = Some a \<Longrightarrow> to_datetime a = Inr t \<Longrightarrow> to_datetime_opt to_datetime v = Inr (Some t)"
  by (simp add: to_datetime_opt_def)

subsection \<open>The run of \<^verbatim>\<open>get_layout\<close>\<close>

text \<open>The rest of the run once the window and the thresholds are there.\<close>

lemma get_layout_nothing_passes:
  assumes "comb \<noteq> []"
    and "to_datetime_opt to_datetime (cfg ''start_day_str'') = Inr (Some start_dt)"
    and "to_datetime_opt to_datetime (cfg ''end_day_str'') = Inr (Some end_dt)"
    and "as_number (cfg_get cfg ''filter_track'' (CFloat 1.0)) = Inr max_track"
    and "as_number (cfg_get cfg ''filter_frp'' (CFloat 0.0)) = Inr min_frp"
    and "filter (passes max_track min_frp start_dt end_dt) comb = []"
  shows "get_layout to_datetime cfg comb = Inr NoAnomalies"
  using assms by (simp add: get_layout_def Let_def)

lemma sort_key_nonempty: "xs \<noteq> [] \<Longrightarrow> sort_key f xs \<noteq> []"
  by (metis length_sort length_0_conv)

lemma get_layout_tagged:
  assumes "comb \<noteq> []"
    and "to_datetime_opt to_datetime (cfg ''start_day_str'') = Inr (Some start_dt)"
    and "to_datetime_opt to_datetime (cfg ''end_day_str'') = Inr (Some end_dt)"
    and "as_number (cfg_get cfg ''filter_track'' (CFloat 1.0)) = Inr max_track"
    and "as_number (cfg_get cfg ''filter_frp'' (CFloat 0.0)) = Inr min_frp"
    and "filter (passes max_track min_frp start_dt end_dt) comb \<noteq> []"
    and "as_number (cfg_get cfg ''lats_vent'' (CFloat 0.0)) = Inr lat1"
    and "as_number (cfg_get cfg ''longs_vent'' (CFloat 0.0)) = Inr lon1"
  shows "get_layout to_datetime cfg comb =
           Inr (Filtered (map (\<lambda>r. (r, distance_km_of lat1 lon1 r))
                  (sort_key date (filter (passes max_track min_frp start_dt end_dt) comb))))"
  using assms sort_key_nonempty [OF assms(6), of date]
  by (simp add: get_layout_def Let_def)

lemma get_layout_vent_error:
  assumes "comb \<noteq> []"
    and "to_datetime_opt to_datetime (cfg ''start_day_str'') = Inr (Some start_dt)"
    and "to_datetime_opt to_datetime (cfg ''end_day_str'') = Inr (Some end_dt)"
    and "as_number (cfg_get cfg ''filter_track'' (CFloat 1.0)) = Inr max_track"
    and "as_number (cfg_get cfg ''filter_frp'' (CFloat 0.0)) = Inr min_frp"
    and "filter (passes max_track min_frp start_dt end_dt) comb \<noteq> []"
    and "as_number (cfg_get cfg ''lats_vent'' (CFloat 0.0)) = Inl e \<or>
         as_number (cfg_get cfg ''longs_vent'' (CFloat 0.0)) = Inl e"
  shows "isl (get_layout to_datetime cfg comb)"
proof (cases "as_number (cfg_get cfg ''lats_vent'' (CFloat 0.0))")
  case (Inl a)
  with assms(1-5) sort_key_nonempty [OF assms(6), of date] show ?thesis
    by (simp add: get_layout_def Let_def)
next
  case (Inr lat1)
  with assms(7) have "as_number (cfg_get cfg ''longs_vent'' (CFloat 0.0)) = Inl e" by simp
  with Inr assms(1-5) sort_key_nonempty [OF assms(6), of date] show ?thesis
    by (simp add: get_layout_def Let_def)
qed

text \<open>A run that does not fail on a frame with rows has read its window and thresholds.\<close>

lemma get_layout_success:
  assumes "get_layout to_datetime cfg comb = Inr out" and "comb \<noteq> []"
  shows "\<exists>start_dt end_dt max_track min_frp.
           to_datetime_opt to_datetime (cfg ''start_day_str'') = Inr (Some start_dt) \<and>
           to_datetime_opt to_datetime (cfg ''end_day_str'') = Inr (Some end_dt) \<and>
           as_number (cfg_get cfg ''filter_track'' (CFloat 1.0)) = Inr max_track \<and>
           as_number (cfg_get cfg ''filter_frp'' (CFloat 0.0)) = Inr min_frp"
proof -
  obtain s where s: "to_datetime_opt to_datetime (cfg ''start_day_str'') = Inr s"
    using assms by (cases "to_datetime_opt to_datetime (cfg ''start_day_str'')")
      (simp_all add: get_layout_def Let_def)
  obtain e where e: "to_datetime_opt to_datetime (cfg ''end_day_str'') = Inr e"
    using assms s by (cases "to_datetime_opt to_datetime (cfg ''end_day_str'')")
      (simp_all add: get_layout_def Let_def)
  obtain mt where mt: "as_number (cfg_get cfg ''filter_track'' (CFloat 1.0)) = Inr mt"
    using assms s e by (cases "as_number (cfg_get cfg ''filter_track'' (CFloat 1.0))")
      (simp_all add: get_layout_def Let_def)
  obtain mf where mf: "as_number (cfg_get cfg ''filter_frp'' (CFloat 0.0)) = Inr mf"
    using assms s e mt by (cases "as_number (cfg_get cfg ''filter_frp'' (CFloat 0.0))")
      (simp_all add: get_layout_def Let_def)
  obtain s' where s': "s = Some s'"
    using assms s e mt mf by (cases s) (simp_all add: get_layout_def Let_def)
  obtain e' where e': "e = Some e'"
    using assms s e mt mf s' by (cases e) (simp_all add: get_layout_def Let_def)
  from s e mt mf s' e' show ?thesis by blast
qed

lemma get_layout_outcome:
  assumes "get_layout to_datetime cfg comb = Inr out" and "comb \<noteq> []"
    and "to_datetime_opt to_datetime (cfg ''start_day_str'') = Inr (Some start_dt)"
    and "to_datetime_opt to_datetime (cfg ''end_day_str'') = Inr (Some end_dt)"
    and "as_number (cfg_get cfg ''filter_track'' (CFloat 1.0)) = Inr max_track"
    and "as_number (cfg_get cfg ''filter_frp'' (CFloat 0.0)) = Inr min_frp"
  shows "(filter (passes max_track min_frp start_dt end_dt) comb = [] \<and> out = NoAnomalies) \<or>
         (\<exists>lat1 lon1.
            as_number (cfg_get cfg ''lats_vent'' (CFloat 0.0)) = Inr lat1 \<and>
            as_number (cfg_get cfg ''longs_vent'' (CFloat 0.0)) = Inr lon1 \<and>
            out = Filtered (map (\<lambda>r. (r, distance_km_of lat1 lon1 r))
                    (sort_key date (filter (passes max_track min_frp start_dt end_dt) comb))))"
proof (cases "filter (passes max_track min_frp start_dt end_dt) comb = []")
  case True
  from get_layout_nothing_passes [OF assms(2-6) True] assms(1) True show ?thesis by simp
next
  case False
  show ?thesis
  proof (cases "as_number (cfg_get cfg ''lats_vent'' (CFloat 0.0))")
    case (Inl e)
    then have "isl (get_layout to_datetime cfg comb)"
      using get_layout_vent_error [OF assms(2-6) False] by blast
    with assms(1) show ?thesis by simp
  next
    case lat: (Inr lat1)
    show ?thesis
    proof (cases "as_number (cfg_get cfg ''longs_vent'' (CFloat 0.0))")
      case (Inl e)
      then have "isl (get_layout to_datetime cfg comb)"
        using get_layout_vent_error [OF assms(2-6) False] by blast
      with assms(1) show ?thesis by simp
    next
      case lon: (Inr lon1)
      from get_layout_tagged [OF assms(2-6) False lat lon] assms(1) lat lon
      show ?thesis by simp
    qed
  qed
qed

lemma get_layout_filtered_rows:
  assumes "get_layout to_datetime cfg comb = Inr out" and "comb \<noteq> []"
    and "to_datetime_opt to_datetime (cfg ''start_day_str'') = Inr (Some start_dt)"
    and "to_datetime_opt to_datetime (cfg ''end_day_str'') = Inr (Some end_dt)"
    and "as_number (cfg_get cfg ''filter_track'' (CFloat 1.0)) = Inr max_track"
    and "as_number (cfg_get cfg ''filter_frp'' (CFloat 0.0)) = Inr min_frp"
  shows "filtered_rows out = sort_key date (filter (passes max_track min_frp start_dt end_dt) comb)"
  using get_layout_outcome [OF assms] by (auto simp: comp_def)

lemma get_layout_rows:
  assumes "get_layout to_datetime cfg comb = Inr (Filtered rows)"
  shows "\<exists>lat1 lon1 filtered.
           as_number (cfg_get cfg ''lats_vent'' (CFloat 0.0)) = Inr lat1 \<and>
           as_number (cfg_get cfg ''longs_vent'' (CFloat 0.0)) = Inr lon1 \<and>
           rows = map (\<lambda>r. (r, distance_km_of lat1 lon1 r)) filtered"
proof -
  from assms have ne: "comb \<noteq> []" by (auto simp: get_layout_def)
  from get_layout_success [OF assms ne] obtain s e mt mf where
    w: "to_datetime_opt to_datetime (cfg ''start_day_str'') = Inr (Some s)"
       "to_datetime_opt to_datetime (cfg ''end_day_str'') = Inr (Some e)"
       "as_number (cfg_get cfg ''filter_track'' (CFloat 1.0)) = Inr mt"
       "as_number (cfg_get cfg ''filter_frp'' (CFloat 0.0)) = Inr mf"
    by blast
  from get_layout_outcome [OF assms ne w] show ?thesis by blast
qed

subsection \<open>The Haversine distance\<close>

text \<open>Bounds on \<open>\<pi>\<close> from the Taylor polynomial of the sine at \<open>\<pi>/6\<close>.\<close>

lemma sin_poly_bound: "\<bar>sin x - (x - x ^ 3 / 6)\<bar> \<le> \<bar>x\<bar> ^ 5 / 120" for x :: real
proof -
  have c: "sin_coeff (Suc 0) = 1" "sin_coeff 2 = 0" "sin_coeff 3 = - 1 / 6" "sin_coeff 4 = 0"
    by (simp_all add: sin_coeff_def fact_numeral)
  have "{..<5::nat} = {0, 1, 2, 3, 4}" by auto
  then have s: "(\<Sum>m<5. sin_coeff m * x ^ m) = x - x ^ 3 / 6"
    by (simp add: c)
  have f5: "(fact 5 :: real) = 120" by (simp add: fact_numeral)
  have r: "inverse (fact 5) * \<bar>x\<bar> ^ 5 = \<bar>x\<bar> ^ 5 / 120"
    unfolding f5 by simp
  from Maclaurin_sin_bound [of x 5] show ?thesis
    by (simp only: s r)
qed

lemma pi_lower: "311 / 100 < pi"
proof (rule ccontr)
  assume "\<not> 311 / 100 < pi"
  then have le: "pi / 6 \<le> 311 / 600" by simp
  have "sin (pi / 6) \<le> sin (311 / 600 :: real)"
  proof (rule sin_monotone_2pi_le)
    show "- (pi / 2) \<le> pi / 6" using pi_ge_two by simp
    show "pi / 6 \<le> 311 / 600" by (rule le)
    show "(311 / 600 :: real) \<le> pi / 2" using pi_ge_two by simp
  qed
  then have "1 / 2 \<le> sin (311 / 600 :: real)" by (simp add: sin_30)
  moreover have "sin (311 / 600 :: real) \<le> (311 / 600 - (311 / 600) ^ 3 / 6) + \<bar>311 / 600\<bar> ^ 5 / 120"
    using sin_poly_bound [of "311 / 600"] by linarith
  moreover have "(311 / 600 - (311 / 600) ^ 3 / 6) + \<bar>311 / 600\<bar> ^ 5 / 120 < (1 / 2 :: real)"
    by (simp add: power_divide)
  ultimately show False by linarith
qed

lemma pi_upper: "pi < 316 / 100"
proof (rule ccontr)
  assume "\<not> pi < 316 / 100"
  then have le: "316 / 600 \<le> pi / 6" by simp
  have "sin (316 / 600 :: real) \<le> sin (pi / 6)"
  proof (rule sin_monotone_2pi_le)
    show "- (pi / 2) \<le> (316 / 600 :: real)" using pi_ge_two by simp
    show "316 / 600 \<le> pi / 6" by (rule le)
    show "pi / 6 \<le> pi / 2" using pi_ge_two by simp
  qed
  then have "sin (316 / 600 :: real) \<le> 1 / 2" by (simp add: sin_30)
  moreover have "(316 / 600 - (316 / 600) ^ 3 / 6) - \<bar>316 / 600\<bar> ^ 5 / 120 \<le> sin (316 / 600 :: real)"
    using sin_poly_bound [of "316 / 600"] by linarith
  moreover have "(1 / 2 :: real) < (316 / 600 - (316 / 600) ^ 3 / 6) - \<bar>316 / 600\<bar> ^ 5 / 120"
    by (simp add: power_divide)
  ultimately show False by linarith
qed

lemma haversine_is_great_circle:
  "haversine_km la1 lo1 la2 lo2 =
     great_circle_km (radians la1) (radians lo1) (radians la2) (radians lo2)"
  by (simp add: haversine_km_def great_circle_km_def radians_def Let_def)

lemma haversine_equator: "haversine_km 0 0 0 (1 / 100) = 6371 * pi / 18000"
proof -
  let ?x = "pi / 36000"
  have x: "0 \<le> ?x" "?x \<le> pi / 2" by simp_all
  have "0 \<le> sin ?x" using x pi_ge_zero by (intro sin_ge_zero) simp_all
  then have "sqrt ((sin ?x)\<^sup>2) = sin ?x" by simp
  moreover have "arcsin (sin ?x) = ?x" using x by (intro arcsin_sin) simp_all
  ultimately show ?thesis
    by (simp add: haversine_km_def Let_def)
qed

lemma haversine_equator_bound: "\<bar>haversine_km 0 0 0 (1 / 100) - 111 / 100\<bar> \<le> 1 / 100 * (111 / 100)"
proof -
  have "\<bar>6371 * pi / 18000 - 111 / 100\<bar> \<le> 1 / 100 * (111 / 100)"
    using pi_lower pi_upper by linarith
  then show ?thesis by (simp only: haversine_equator)
qed

subsection \<open>The claims about the distance tagging\<close>

lemma snpp_load: "load_and_tag_data one_snpp_file = Inr snpp_comb"
  by (simp add: mapper_eval)

lemma snpp_layout:
  "get_layout parse_window window_only snpp_comb =
     Inr (Filtered [(tagged_0930, distance_km_of 0 0 tagged_0930),
                    (tagged_1200, distance_km_of 0 0 tagged_1200)])"
  by (simp add: mapper_eval)

text \<open>
  Claim C8. When the tagging run does not fail, the rows of \<^verbatim>\<open>filtered\<close> are, with their
  multiplicities, the loaded rows with \<open>track \<le> max_track\<close>, \<open>frp \<ge> min_frp\<close> and
  \<open>start \<le> date \<le> end\<close>, where start and end are the bounds that the run read from the
  configuration; they are sorted by timestamp; and the timestamp of every loaded row is
  its date combined with its zero-padded time of day.
\<close>

theorem filtered_exact_and_sorted:
  assumes "load_and_tag_data glob = Inr comb"
    and "get_layout to_datetime cfg comb = Inr out"
    and "as_number (cfg_get cfg ''filter_track'' (CFloat 1.0)) = Inr max_track"
    and "as_number (cfg_get cfg ''filter_frp'' (CFloat 0.0)) = Inr min_frp"
  shows "\<exists>start_dt end_dt.
           (comb \<noteq> [] \<longrightarrow>
              to_datetime_opt to_datetime (cfg ''start_day_str'') = Inr (Some start_dt) \<and>
              to_datetime_opt to_datetime (cfg ''end_day_str'') = Inr (Some end_dt)) \<and>
           mset (filtered_rows out) =
             filter_mset (\<lambda>r. cell_le (track r) max_track \<and> cell_ge (frp r) min_frp \<and>
                               start_dt \<le> date r \<and> date r \<le> end_dt) (mset comb) \<and>
           sorted (map date (filtered_rows out)) \<and>
           (\<forall>r \<in> set comb. \<exists>m. strptime_hhmm (zfill 4 (acq_time r)) = Inr m \<and>
                                 date r = 1440 * acq_date r + int m)"
proof -
  have c: "\<forall>r \<in> set comb. \<exists>m. strptime_hhmm (zfill 4 (acq_time r)) = Inr m \<and>
                               date r = 1440 * acq_date r + int m"
    using load_and_tag_data_date [OF assms(1)] by blast
  show ?thesis
  proof (cases "comb = []")
    case True
    with assms(2) have "out = NoDataFiles" by (simp add: get_layout_def)
    with True c show ?thesis by simp
  next
    case False
    from get_layout_success [OF assms(2) False] assms(3,4) obtain start_dt end_dt where
      w: "to_datetime_opt to_datetime (cfg ''start_day_str'') = Inr (Some start_dt)"
         "to_datetime_opt to_datetime (cfg ''end_day_str'') = Inr (Some end_dt)"
      by blast
    have f: "filtered_rows out =
               sort_key date (filter (passes max_track min_frp start_dt end_dt) comb)"
      using assms(2) False w assms(3,4) by (rule get_layout_filtered_rows)
    have p: "passes max_track min_frp start_dt end_dt =
             (\<lambda>r. cell_le (track r) max_track \<and> cell_ge (frp r) min_frp \<and>
                   start_dt \<le> date r \<and> date r \<le> end_dt)"
      by (rule ext) (simp add: passes_def)
    have a: "mset (filtered_rows out) =
             filter_mset (\<lambda>r. cell_le (track r) max_track \<and> cell_ge (frp r) min_frp \<and>
                               start_dt \<le> date r \<and> date r \<le> end_dt) (mset comb)"
      unfolding f p by simp
    have b: "sorted (map date (filtered_rows out))"
      unfolding f by (rule sorted_sort_key)
    from w a b c show ?thesis by blast
  qed
qed

theorem filtered_exact_and_sorted_witness:
  "load_and_tag_data one_snpp_file = Inr snpp_comb \<and>
   get_layout parse_window window_only snpp_comb =
     Inr (Filtered [(tagged_0930, distance_km_of 0 0 tagged_0930),
                    (tagged_1200, distance_km_of 0 0 tagged_1200)]) \<and>
   mset [tagged_0930, tagged_1200] =
     filter_mset (\<lambda>r. cell_le (track r) 1 \<and> cell_ge (frp r) 0 \<and> 0 \<le> date r \<and> date r \<le> 1052640)
       (mset snpp_comb) \<and>
   sorted (map date [tagged_0930, tagged_1200])"
proof -
  have t: "as_number (cfg_get window_only ''filter_track'' (CFloat 1.0)) = Inr 1"
    and f: "as_number (cfg_get window_only ''filter_frp'' (CFloat 0.0)) = Inr 0"
    by (simp_all add: cfg_get_def window_only_def)
  have ne: "snpp_comb \<noteq> []" by (simp add: snpp_comb_def)
  from filtered_exact_and_sorted [OF snpp_load snpp_layout t f] ne
  obtain start_dt end_dt where
    w: "to_datetime_opt parse_window (window_only ''start_day_str'') = Inr (Some start_dt)"
       "to_datetime_opt parse_window (window_only ''end_day_str'') = Inr (Some end_dt)"
    and m: "mset (filtered_rows (Filtered [(tagged_0930, distance_km_of 0 0 tagged_0930),
                    (tagged_1200, distance_km_of 0 0 tagged_1200)])) =
             filter_mset (\<lambda>r. cell_le (track r) 1 \<and> cell_ge (frp r) 0 \<and>
                               start_dt \<le> date r \<and> date r \<le> end_dt) (mset snpp_comb)"
    and s: "sorted (map date (filtered_rows (Filtered [(tagged_0930, distance_km_of 0 0 tagged_0930),
                    (tagged_1200, distance_km_of 0 0 tagged_1200)])))"
    by blast
  from w have "start_dt = 0" "end_dt = 1052640"
    by (simp_all add: to_datetime_opt_def window_only_def)
  with m s snpp_load snpp_layout show ?thesis by simp
qed

text \<open>
  Claim C7. The distance of every row of \<^verbatim>\<open>filtered\<close> with numeric coordinates is what
  lines 91 to 96 compute from the reference point of the configuration, and that is the
  great-circle distance of the specification on the angles in radians. From \<open>(0, 0)\<close> to
  \<open>(0, 0.01)\<close> degrees it is within one percent of 1.11 km.
\<close>

theorem distance_is_haversine:
  assumes "get_layout to_datetime cfg comb = Inr (Filtered rows)" and "(r, d) \<in> set rows"
  shows "(\<exists>lat1 lon1.
            as_number (cfg_get cfg ''lats_vent'' (CFloat 0.0)) = Inr lat1 \<and>
            as_number (cfg_get cfg ''longs_vent'' (CFloat 0.0)) = Inr lon1 \<and>
            (\<forall>la lo. latitude r = Num la \<and> longitude r = Num lo \<longrightarrow>
               d = Num (haversine_km lat1 lon1 la lo) \<and>
               haversine_km lat1 lon1 la lo =
                 great_circle_km (radians lat1) (radians lon1) (radians la) (radians lo))) \<and>
         \<bar>haversine_km 0 0 0 (1 / 100) - 111 / 100\<bar> \<le> 1 / 100 * (111 / 100)"
proof -
  from get_layout_rows [OF assms(1)] obtain lat1 lon1 filtered where
    la: "as_number (cfg_get cfg ''lats_vent'' (CFloat 0.0)) = Inr lat1"
    and lo: "as_number (cfg_get cfg ''longs_vent'' (CFloat 0.0)) = Inr lon1"
    and rows: "rows = map (\<lambda>r. (r, distance_km_of lat1 lon1 r)) filtered"
    by blast
  from rows assms(2) have d: "d = distance_km_of lat1 lon1 r" by auto
  have "\<forall>la lo. latitude r = Num la \<and> longitude r = Num lo \<longrightarrow>
               d = Num (haversine_km lat1 lon1 la lo) \<and>
               haversine_km lat1 lon1 la lo =
                 great_circle_km (radians lat1) (radians lon1) (radians la) (radians lo)"
    by (simp add: d distance_km_of_def haversine_is_great_circle)
  with la lo haversine_equator_bound show ?thesis by blast
qed

theorem distance_is_haversine_witness:
  "get_layout parse_window window_only snpp_comb =
     Inr (Filtered [(tagged_0930, distance_km_of 0 0 tagged_0930),
                    (tagged_1200, distance_km_of 0 0 tagged_1200)]) \<and>
   distance_km_of 0 0 tagged_1200 =
     Num (great_circle_km (radians 0) (radians 0) (radians 0) (radians (1 / 100))) \<and>
   \<bar>haversine_km 0 0 0 (1 / 100) - 111 / 100\<bar> \<le> 1 / 100 * (111 / 100)"
proof -
  have mem: "(tagged_1200, distance_km_of 0 0 tagged_1200) \<in>
               set [(tagged_0930, distance_km_of 0 0 tagged_0930),
                    (tagged_1200, distance_km_of 0 0 tagged_1200)]" by simp
  from distance_is_haversine [OF snpp_layout mem]
  obtain lat1 lon1 where
    la: "as_number (cfg_get window_only ''lats_vent'' (CFloat 0.0)) = Inr lat1"
    and lo: "as_number (cfg_get window_only ''longs_vent'' (CFloat 0.0)) = Inr lon1"
    and d: "\<forall>la lo. latitude tagged_1200 = Num la \<and> longitude tagged_1200 = Num lo \<longrightarrow>
               distance_km_of 0 0 tagged_1200 = Num (haversine_km lat1 lon1 la lo) \<and>
               haversine_km lat1 lon1 la lo =
                 great_circle_km (radians lat1) (radians lon1) (radians la) (radians lo)"
    and b: "\<bar>haversine_km 0 0 0 (1 / 100) - 111 / 100\<bar> \<le> 1 / 100 * (111 / 100)"
    by blast
  from la lo have z: "lat1 = 0" "lon1 = 0" by (simp_all add: cfg_get_def window_only_def)
  have "latitude tagged_1200 = Num 0 \<and> longitude tagged_1200 = Num (1 / 100)"
    by (simp add: tagged_1200_def)
  with d have "distance_km_of 0 0 tagged_1200 = Num (haversine_km lat1 lon1 0 (1 / 100)) \<and>
               haversine_km lat1 lon1 0 (1 / 100) =
                 great_circle_km (radians lat1) (radians lon1) (radians 0) (radians (1 / 100))"
    by blast
  with z b snpp_layout show ?thesis by simp
qed

subsection \<open>Missing and invalid configuration values\<close>

lemma cfg_get_defaults:
  "cfg_get (defaults ++ cfg) ''lats_vent'' (CFloat 0.0) = cfg_get cfg ''lats_vent'' (CFloat 0.0)"
  "cfg_get (defaults ++ cfg) ''longs_vent'' (CFloat 0.0) = cfg_get cfg ''longs_vent'' (CFloat 0.0)"
  "cfg_get (defaults ++ cfg) ''filter_track'' (CFloat 1.0) = cfg_get cfg ''filter_track'' (CFloat 1.0)"
  "cfg_get (defaults ++ cfg) ''filter_frp'' (CFloat 0.0) = cfg_get cfg ''filter_frp'' (CFloat 0.0)"
  by (simp_all add: cfg_get_def defaults_def map_add_def split: option.splits)

lemma window_defaults:
  "(defaults ++ cfg) ''start_day_str'' = cfg ''start_day_str''"
  "(defaults ++ cfg) ''end_day_str'' = cfg ''end_day_str''"
  by (simp_all add: defaults_def map_add_def split: option.splits)

lemma get_layout_defaults:
  "get_layout to_datetime (defaults ++ cfg) comb = get_layout to_datetime cfg comb"
  unfolding get_layout_def by (simp only: cfg_get_defaults window_defaults)

lemma get_layout_proceeds:
  assumes "to_datetime_opt to_datetime (cfg ''start_day_str'') = Inr (Some start_dt)"
    and "to_datetime_opt to_datetime (cfg ''end_day_str'') = Inr (Some end_dt)"
    and "\<not> is_text (cfg ''lats_vent'')" "\<not> is_text (cfg ''longs_vent'')"
    and "\<not> is_text (cfg ''filter_track'')" "\<not> is_text (cfg ''filter_frp'')"
  shows "\<exists>lat1 lon1 max_track min_frp.
           as_number (cfg_get cfg ''lats_vent'' (CFloat 0.0)) = Inr lat1 \<and>
           as_number (cfg_get cfg ''longs_vent'' (CFloat 0.0)) = Inr lon1 \<and>
           as_number (cfg_get cfg ''filter_track'' (CFloat 1.0)) = Inr max_track \<and>
           as_number (cfg_get cfg ''filter_frp'' (CFloat 0.0)) = Inr min_frp \<and>
           get_layout to_datetime cfg comb =
             (if comb = [] then Inr NoDataFiles
              else if filter (passes max_track min_frp start_dt end_dt) comb = [] then Inr NoAnomalies
              else Inr (Filtered (map (\<lambda>r. (r, distance_km_of lat1 lon1 r))
                      (sort_key date (filter (passes max_track min_frp start_dt end_dt) comb)))))"
proof -
  from assms(3-6) obtain la lo mt mf where n:
    "as_number (cfg_get cfg ''lats_vent'' (CFloat 0.0)) = Inr la"
    "as_number (cfg_get cfg ''longs_vent'' (CFloat 0.0)) = Inr lo"
    "as_number (cfg_get cfg ''filter_track'' (CFloat 1.0)) = Inr mt"
    "as_number (cfg_get cfg ''filter_frp'' (CFloat 0.0)) = Inr mf"
    using as_number_usable by metis
  have "get_layout to_datetime cfg comb =
             (if comb = [] then Inr NoDataFiles
              else if filter (passes mt mf start_dt end_dt) comb = [] then Inr NoAnomalies
              else Inr (Filtered (map (\<lambda>r. (r, distance_km_of la lo r))
                      (sort_key date (filter (passes mt mf start_dt end_dt) comb)))))"
  proof (cases "comb = []")
    case True
    then show ?thesis by (simp add: get_layout_def)
  next
    case False
    show ?thesis
    proof (cases "filter (passes mt mf start_dt end_dt) comb = []")
      case True
      from get_layout_nothing_passes [OF False assms(1,2) n(3,4) True] False True
      show ?thesis by simp
    next
      case pass: False
      from get_layout_tagged [OF False assms(1,2) n(3,4) pass n(1,2)] False pass
      show ?thesis by simp
    qed
  qed
  with n show ?thesis by blast
qed

lemma get_layout_text_threshold:
  assumes "comb \<noteq> []" and "is_text (cfg ''filter_track'') \<or> is_text (cfg ''filter_frp'')"
  shows "isl (get_layout to_datetime cfg comb)"
    and "to_datetime_opt to_datetime (cfg ''start_day_str'') = Inr s \<Longrightarrow>
         to_datetime_opt to_datetime (cfg ''end_day_str'') = Inr e \<Longrightarrow>
         get_layout to_datetime cfg comb = Inl TypeError"
proof -
  have err: "get_layout to_datetime cfg comb = Inl TypeError"
    if s: "to_datetime_opt to_datetime (cfg ''start_day_str'') = Inr s"
      and e: "to_datetime_opt to_datetime (cfg ''end_day_str'') = Inr e" for s e
  proof (cases "is_text (cfg ''filter_track'')")
    case True
    then have "as_number (cfg_get cfg ''filter_track'' (CFloat 1.0)) = Inl TypeError"
      by (rule as_number_text)
    with assms(1) s e show ?thesis by (simp add: get_layout_def Let_def)
  next
    case False
    with assms(2) have "is_text (cfg ''filter_frp'')" by blast
    then have t: "as_number (cfg_get cfg ''filter_frp'' (CFloat 0.0)) = Inl TypeError"
      by (rule as_number_text)
    from False obtain mt where "as_number (cfg_get cfg ''filter_track'' (CFloat 1.0)) = Inr mt"
      using as_number_usable by blast
    with t assms(1) s e show ?thesis by (simp add: get_layout_def Let_def)
  qed
  show "to_datetime_opt to_datetime (cfg ''start_day_str'') = Inr s \<Longrightarrow>
         to_datetime_opt to_datetime (cfg ''end_day_str'') = Inr e \<Longrightarrow>
         get_layout to_datetime cfg comb = Inl TypeError"
    by (rule err)
  show "isl (get_layout to_datetime cfg comb)"
  proof (cases "to_datetime_opt to_datetime (cfg ''start_day_str'')")
    case (Inl a)
    with assms(1) show ?thesis by (simp add: get_layout_def Let_def)
  next
    case s: (Inr s)
    show ?thesis
    proof (cases "to_datetime_opt to_datetime (cfg ''end_day_str'')")
      case (Inl a)
      with assms(1) s show ?thesis by (simp add: get_layout_def Let_def)
    next
      case (Inr e)
      with s err show ?thesis by simp
    qed
  qed
qed

lemma get_layout_text_vent:
  assumes "to_datetime_opt to_datetime (cfg ''start_day_str'') = Inr (Some start_dt)"
    and "to_datetime_opt to_datetime (cfg ''end_day_str'') = Inr (Some end_dt)"
    and "as_number (cfg_get cfg ''filter_track'' (CFloat 1.0)) = Inr max_track"
    and "as_number (cfg_get cfg ''filter_frp'' (CFloat 0.0)) = Inr min_frp"
    and "filter (passes max_track min_frp start_dt end_dt) comb \<noteq> []"
    and "is_text (cfg ''lats_vent'') \<or> is_text (cfg ''longs_vent'')"
  shows "get_layout to_datetime cfg comb = Inl TypeError"
proof -
  from assms(5) have c: "comb \<noteq> []" by auto
  note f = sort_key_nonempty [OF assms(5), of date]
  show ?thesis
  proof (cases "is_text (cfg ''lats_vent'')")
    case True
    then have "as_number (cfg_get cfg ''lats_vent'' (CFloat 0.0)) = Inl TypeError"
      by (rule as_number_text)
    with c f assms(1-4) show ?thesis by (simp add: get_layout_def Let_def)
  next
    case False
    with assms(6) have "is_text (cfg ''longs_vent'')" by blast
    then have t: "as_number (cfg_get cfg ''longs_vent'' (CFloat 0.0)) = Inl TypeError"
      by (rule as_number_text)
    from False obtain la where "as_number (cfg_get cfg ''lats_vent'' (CFloat 0.0)) = Inr la"
      using as_number_usable by blast
    with t c f assms(1-4) show ?thesis by (simp add: get_layout_def Let_def)
  qed
qed

text \<open>
  Claim C9 as stated fails: with a configuration that has the analysis window and neither
  a reference point nor thresholds, the run does not fail; it filters with the defaults and
  tags the distance from \<open>(0, 0)\<close>.
\<close>

theorem missing_configuration_proceeds:
  "window_only ''lats_vent'' = None \<and> window_only ''longs_vent'' = None \<and>
   window_only ''filter_track'' = None \<and> window_only ''filter_frp'' = None \<and>
   get_layout parse_window window_only [tagged_0930] = Inr (Filtered [(tagged_0930, Num 0)])"
  by (simp add: mapper_eval distance_km_of_def haversine_km_def)

text \<open>
  Claim C9, as amended. A value of the reference point or a threshold that is missing is
  replaced by its default, \<open>(0.0, 0.0)\<close>, \<open>1.0\<close> and \<open>0.0\<close>: the run is the run of the
  configuration with the defaults filled in. With an analysis window that is configured and
  parses, and none of the four values a text, the run does not fail: it filters and tags the
  distances. A threshold that is a text fails the run as soon as a row was loaded, with a
  \<^verbatim>\<open>TypeError\<close> when the window was read; a coordinate of the reference point that is a
  text fails it with a \<^verbatim>\<open>TypeError\<close> as soon as a row passes the filter.
\<close>

theorem configuration_defaults_and_failures:
  "get_layout to_datetime (defaults ++ cfg) comb = get_layout to_datetime cfg comb \<and>
   (to_datetime_opt to_datetime (cfg ''start_day_str'') = Inr (Some start_dt) \<and>
    to_datetime_opt to_datetime (cfg ''end_day_str'') = Inr (Some end_dt) \<and>
    \<not> is_text (cfg ''lats_vent'') \<and> \<not> is_text (cfg ''longs_vent'') \<and>
    \<not> is_text (cfg ''filter_track'') \<and> \<not> is_text (cfg ''filter_frp'') \<longrightarrow>
      (\<exists>lat1 lon1 max_track min_frp.
         as_number (cfg_get cfg ''lats_vent'' (CFloat 0.0)) = Inr lat1 \<and>
         as_number (cfg_get cfg ''longs_vent'' (CFloat 0.0)) = Inr lon1 \<and>
         as_number (cfg_get cfg ''filter_track'' (CFloat 1.0)) = Inr max_track \<and>
         as_number (cfg_get cfg ''filter_frp'' (CFloat 0.0)) = Inr min_frp \<and>
         get_layout to_datetime cfg comb =
           (if comb = [] then Inr NoDataFiles
            else if filter (passes max_track min_frp start_dt end_dt) comb = [] then Inr NoAnomalies
            else Inr (Filtered (map (\<lambda>r. (r, distance_km_of lat1 lon1 r))
                    (sort_key date (filter (passes max_track min_frp start_dt end_dt) comb))))))) \<and>
   (comb \<noteq> [] \<and> (is_text (cfg ''filter_track'') \<or> is_text (cfg ''filter_frp'')) \<longrightarrow>
      isl (get_layout to_datetime cfg comb) \<and>
      (\<forall>s e. to_datetime_opt to_datetime (cfg ''start_day_str'') = Inr s \<and>
             to_datetime_opt to_datetime (cfg ''end_day_str'') = Inr e \<longrightarrow>
             get_layout to_datetime cfg comb = Inl TypeError)) \<and>
   (\<forall>max_track min_frp.
      to_datetime_opt to_datetime (cfg ''start_day_str'') = Inr (Some start_dt) \<and>
      to_datetime_opt to_datetime (cfg ''end_day_str'') = Inr (Some end_dt) \<and>
      as_number (cfg_get cfg ''filter_track'' (CFloat 1.0)) = Inr max_track \<and>
      as_number (cfg_get cfg ''filter_frp'' (CFloat 0.0)) = Inr min_frp \<and>
      filter (passes max_track min_frp start_dt end_dt) comb \<noteq> [] \<and>
      (is_text (cfg ''lats_vent'') \<or> is_text (cfg ''longs_vent'')) \<longrightarrow>
        get_layout to_datetime cfg comb = Inl TypeError)"
proof -
  note a = get_layout_defaults [of to_datetime cfg comb]
  have b: "to_datetime_opt to_datetime (cfg ''start_day_str'') = Inr (Some start_dt) \<and>
    to_datetime_opt to_datetime (cfg ''end_day_str'') = Inr (Some end_dt) \<and>
    \<not> is_text (cfg ''lats_vent'') \<and> \<not> is_text (cfg ''longs_vent'') \<and>
    \<not> is_text (cfg ''filter_track'') \<and> \<not> is_text (cfg ''filter_frp'') \<longrightarrow>
      (\<exists>lat1 lon1 max_track min_frp.
         as_number (cfg_get cfg ''lats_vent'' (CFloat 0.0)) = Inr lat1 \<and>
         as_number (cfg_get cfg ''longs_vent'' (CFloat 0.0)) = Inr lon1 \<and>
         as_number (cfg_get cfg ''filter_track'' (CFloat 1.0)) = Inr max_track \<and>
         as_number (cfg_get cfg ''filter_frp'' (CFloat 0.0)) = Inr min_frp \<and>
         get_layout to_datetime cfg comb =
           (if comb = [] then Inr NoDataFiles
            else if filter (passes max_track min_frp start_dt end_dt) comb = [] then Inr NoAnomalies
            else Inr (Filtered (map (\<lambda>r. (r, distance_km_of lat1 lon1 r))
                    (sort_key date (filter (passes max_track min_frp start_dt end_dt) comb))))))"
    using get_layout_proceeds [of to_datetime cfg start_dt end_dt comb] by blast
  have c: "comb \<noteq> [] \<and> (is_text (cfg ''filter_track'') \<or> is_text (cfg ''filter_frp'')) \<longrightarrow>
      isl (get_layout to_datetime cfg comb) \<and>
      (\<forall>s e. to_datetime_opt to_datetime (cfg ''start_day_str'') = Inr s \<and>
             to_datetime_opt to_datetime (cfg ''end_day_str'') = Inr e \<longrightarrow>
             get_layout to_datetime cfg comb = Inl TypeError)"
    using get_layout_text_threshold [of comb cfg to_datetime] by blast
  have d: "\<forall>max_track min_frp.
      to_datetime_opt to_datetime (cfg ''start_day_str'') = Inr (Some start_dt) \<and>
      to_datetime_opt to_datetime (cfg ''end_day_str'') = Inr (Some end_dt) \<and>
      as_number (cfg_get cfg ''filter_track'' (CFloat 1.0)) = Inr max_track \<and>
      as_number (cfg_get cfg ''filter_frp'' (CFloat 0.0)) = Inr min_frp \<and>
      filter (passes max_track min_frp start_dt end_dt) comb \<noteq> [] \<and>
      (is_text (cfg ''lats_vent'') \<or> is_text (cfg ''longs_vent'')) \<longrightarrow>
        get_layout to_datetime cfg comb = Inl TypeError"
    using get_layout_text_vent [of to_datetime cfg start_dt end_dt _ _ comb] by blast
  from a b c d show ?thesis by blast
qed

theorem configuration_defaults_and_failures_witness:
  "get_layout parse_window window_only snpp_comb =
     Inr (Filtered [(tagged_0930, distance_km_of 0 0 tagged_0930),
                    (tagged_1200, distance_km_of 0 0 tagged_1200)]) \<and>
   get_layout parse_window (defaults ++ window_only) snpp_comb =
     get_layout parse_window window_only snpp_comb \<and>
   get_layout parse_window text_threshold snpp_comb = Inl TypeError"
proof -
  have w: "to_datetime_opt parse_window (window_only ''start_day_str'') = Inr (Some 0)"
       "to_datetime_opt parse_window (window_only ''end_day_str'') = Inr (Some 1052640)"
    by (simp_all add: to_datetime_opt_def window_only_def)
  have n: "\<not> is_text (window_only ''lats_vent'')" "\<not> is_text (window_only ''longs_vent'')"
       "\<not> is_text (window_only ''filter_track'')" "\<not> is_text (window_only ''filter_frp'')"
    by (simp_all add: window_only_def)
  from configuration_defaults_and_failures [of parse_window window_only snpp_comb 0 1052640] w n obtain lat1 lon1 max_track min_frp where
    v: "as_number (cfg_get window_only ''lats_vent'' (CFloat 0.0)) = Inr lat1"
       "as_number (cfg_get window_only ''longs_vent'' (CFloat 0.0)) = Inr lon1"
       "as_number (cfg_get window_only ''filter_track'' (CFloat 1.0)) = Inr max_track"
       "as_number (cfg_get window_only ''filter_frp'' (CFloat 0.0)) = Inr min_frp"
    and run: "get_layout parse_window window_only snpp_comb =
           (if snpp_comb = [] then Inr NoDataFiles
            else if filter (passes max_track min_frp 0 1052640) snpp_comb = [] then Inr NoAnomalies
            else Inr (Filtered (map (\<lambda>r. (r, distance_km_of lat1 lon1 r))
                    (sort_key date (filter (passes max_track min_frp 0 1052640) snpp_comb)))))"
    by blast
  from v have z: "lat1 = 0" "lon1 = 0" "max_track = 1" "min_frp = 0"
    by (simp_all add: cfg_get_def window_only_def)
  have a: "get_layout parse_window window_only snpp_comb =
     Inr (Filtered [(tagged_0930, distance_km_of 0 0 tagged_0930),
                    (tagged_1200, distance_km_of 0 0 tagged_1200)])"
    unfolding run z
    by (simp add: passes_def snpp_comb_def tagged_1200_def tagged_0930_def tagged_1300_def
        tagged_1400_def)
  from configuration_defaults_and_failures [of parse_window window_only snpp_comb 0 1052640]
  have b: "get_layout parse_window (defaults ++ window_only) snpp_comb =
           get_layout parse_window window_only snpp_comb" by blast
  have t: "snpp_comb \<noteq> [] \<and>
           (is_text (text_threshold ''filter_track'') \<or> is_text (text_threshold ''filter_frp''))"
    by (simp add: snpp_comb_def text_threshold_def)
  have tw: "to_datetime_opt parse_window (text_threshold ''start_day_str'') = Inr (Some 0) \<and>
            to_datetime_opt parse_window (text_threshold ''end_day_str'') = Inr (Some 1052640)"
    by (simp add: to_datetime_opt_def text_threshold_def window_only_def)
  from configuration_defaults_and_failures [of parse_window text_threshold snpp_comb 0 1052640] t tw
  have c: "get_layout parse_window text_threshold snpp_comb = Inl TypeError" by blast
  from a b c show ?thesis by blast
qed

section \<open>Properties of the breakthrough tracking\<close>

subsection \<open>The columns of the frame\<close>

lemma length_cummax_from [simp]: "length (cummax_from m xs) = length xs"
  by (induction xs arbitrary: m) simp_all

lemma length_cummax [simp]: "length (cummax xs) = length xs"
  by (cases xs) simp_all

lemma length_shift1 [simp]: "length (shift1 f xs) = length xs"
  by (simp add: shift1_def)

lemma shift1_nth:
  "i < length xs \<Longrightarrow> shift1 f xs ! i = (if i = 0 then f else xs ! (i - 1))"
  by (cases i) (simp_all add: shift1_def)

lemma cummax_from_step:
  "i < length xs \<Longrightarrow>
     cummax_from m xs ! i = max ((m # cummax_from m xs) ! i) (xs ! i)"
proof (induction xs arbitrary: m i)
  case Nil
  then show ?case by simp
next
  case (Cons x xs)
  show ?case
  proof (cases i)
    case 0
    then show ?thesis by simp
  next
    case (Suc j)
    with Cons.prems have "j < length xs" by simp
    from Cons.IH [OF this, of "max m x"] Suc show ?thesis by simp
  qed
qed

lemma cummax_step:
  "Suc i < length xs \<Longrightarrow> cummax xs ! Suc i = max (cummax xs ! i) (xs ! Suc i)"
proof (cases xs)
  case Nil
  then show "Suc i < length xs \<Longrightarrow> ?thesis" by simp
next
  case (Cons x ys)
  assume "Suc i < length xs"
  with Cons have "i < length ys" by simp
  from cummax_from_step [OF this, of x] Cons show ?thesis by simp
qed

lemma cummax_first: "0 < length xs \<Longrightarrow> cummax xs ! 0 = xs ! 0"
  by (cases xs) simp_all

lemma cummax_ge: "i < length xs \<Longrightarrow> xs ! i \<le> cummax xs ! i"
proof (cases i)
  case 0
  assume "i < length xs"
  with 0 show ?thesis by (cases xs) simp_all
next
  case (Suc j)
  assume "i < length xs"
  with Suc show ?thesis by (simp add: cummax_step)
qed

lemma cummax_mono_step: "Suc i < length xs \<Longrightarrow> cummax xs ! i \<le> cummax xs ! Suc i"
  by (simp add: cummax_step)

lemma cummax_mono: "i \<le> j \<Longrightarrow> j < length xs \<Longrightarrow> cummax xs ! i \<le> cummax xs ! j"
proof (induction j)
  case 0
  then show ?case by simp
next
  case (Suc j)
  show ?case
  proof (cases "i = Suc j")
    case True
    then show ?thesis by simp
  next
    case False
    with Suc.prems have "i \<le> j" "j < length xs" by simp_all
    then have "cummax xs ! i \<le> cummax xs ! j" by (rule Suc.IH)
    also have "\<dots> \<le> cummax xs ! Suc j" using Suc.prems by (intro cummax_mono_step)
    finally show ?thesis .
  qed
qed

lemma length_with_maxima [simp]: "length (with_maxima rows) = length rows"
  by (simp add: with_maxima_def Let_def)

lemma with_maxima_nth:
  assumes "i < length rows"
  shows "with_maxima rows ! i =
           (sort_key date_only rows ! i,
            cummax (map distance_km (sort_key date_only rows)) ! i,
            (if i = 0 then 0 else cummax (map distance_km (sort_key date_only rows)) ! (i - 1)))"
  using assms by (simp add: with_maxima_def Let_def shift1_nth)

lemma with_maxima_sorted: "sorted_wrt frame_le (with_maxima rows)"
proof -
  let ?df = "sort_key date_only rows"
  let ?M = "cummax (map distance_km ?df)"
  have "frame_le (with_maxima rows ! i) (with_maxima rows ! j)"
    if "i < j" "j < length (with_maxima rows)" for i j
  proof -
    from that have i: "i < length rows" and j: "j < length rows" and j0: "j \<noteq> 0" by simp_all
    have "sorted (map date_only ?df)" by (rule sorted_sort_key)
    then have "map date_only ?df ! i \<le> map date_only ?df ! j"
      using that i j by (intro sorted_nth_mono) simp_all
    then have d: "date_only (?df ! i) \<le> date_only (?df ! j)" using i j by simp
    have "?M ! i \<le> ?M ! (j - 1)"
      using that j by (intro cummax_mono) simp_all
    with d show ?thesis
      by (simp add: frame_le_def with_maxima_nth [OF i] with_maxima_nth [OF j] j0)
  qed
  then show ?thesis by (simp add: sorted_wrt_iff_nth_less)
qed

lemma with_maxima_row:
  assumes "(r, m, p) \<in> set (with_maxima rows)"
  shows "distance_km r \<le> m \<and> (p < distance_km r \<longrightarrow> m = distance_km r)"
proof -
  let ?df = "sort_key date_only rows"
  let ?M = "cummax (map distance_km ?df)"
  from assms obtain i where i: "i < length rows" and eq: "with_maxima rows ! i = (r, m, p)"
    by (auto simp: in_set_conv_nth)
  from eq have r: "r = ?df ! i" and m: "m = ?M ! i"
    and p: "p = (if i = 0 then 0 else ?M ! (i - 1))"
    by (simp_all add: with_maxima_nth [OF i])
  have di: "map distance_km ?df ! i = distance_km r" using i r by simp
  have ge: "distance_km r \<le> m"
    using cummax_ge [of i "map distance_km ?df"] i di m by simp
  have "m = distance_km r" if "p < distance_km r"
  proof (cases i)
    case 0
    have "length (map distance_km ?df) = length rows" by simp
    with i have "0 < length (map distance_km ?df)" by linarith
    then have "?M ! 0 = map distance_km ?df ! 0" by (rule cummax_first)
    with 0 m di show ?thesis by simp
  next
    case (Suc k)
    with i have "Suc k < length (map distance_km ?df)" by simp
    then have "?M ! Suc k = max (?M ! k) (map distance_km ?df ! Suc k)"
      by (rule cummax_step)
    with Suc m p di that show ?thesis by simp
  qed
  with ge show ?thesis by blast
qed

lemma length_diff_hours [simp]: "length (diff_hours ds) = length ds"
  by (cases ds) simp_all

lemma diff_hours_first: "0 < length ds \<Longrightarrow> diff_hours ds ! 0 = NaN"
  by (cases ds) simp_all

lemma diff_hours_next:
  "Suc i < length ds \<Longrightarrow>
     diff_hours ds ! Suc i = Val (24 * real_of_int (ds ! Suc i - ds ! i))"
  by (cases ds) simp_all

lemma length_breakthroughs [simp]: "length (breakthroughs rows) = length (new_maxima rows)"
  by (simp add: breakthroughs_def Let_def)

lemma breakthroughs_nth:
  assumes "i < length (new_maxima rows)"
  shows "breakthroughs rows ! i = event_at (new_maxima rows) i"
proof -
  from assms have ne: "new_maxima rows \<noteq> []" by auto
  obtain r m p where rmp: "new_maxima rows ! i = (r, m, p)"
    by (cases "new_maxima rows ! i") auto
  show ?thesis
    using assms ne rmp by (simp add: breakthroughs_def Let_def event_at_def)
qed

lemma new_maxima_sorted: "sorted_wrt frame_le (new_maxima rows)"
  unfolding new_maxima_def by (intro sorted_wrt_filter with_maxima_sorted)

lemma new_maxima_row:
  assumes "(r, m, p) \<in> set (new_maxima rows)"
  shows "p < distance_km r \<and> m = distance_km r"
proof -
  from assms have "(r, m, p) \<in> set (with_maxima rows)" and gt: "p < distance_km r"
    by (simp_all add: new_maxima_def)
  from with_maxima_row [OF this(1)] gt show ?thesis by blast
qed

lemma event_at_fields:
  assumes "new_maxima rows ! i = (r, m, p)"
  shows "ev_row (event_at (new_maxima rows) i) = r"
    and "max_distance (event_at (new_maxima rows) i) = m"
    and "prev_max (event_at (new_maxima rows) i) = p"
    and "distance_diff (event_at (new_maxima rows) i) = (m - p) * 1000"
    and "time_diff (event_at (new_maxima rows) i) =
           diff_hours (map (\<lambda>(r, m, p). date_only r) (new_maxima rows)) ! i"
    and "speed (event_at (new_maxima rows) i) =
           fdiv ((m - p) * 1000) (diff_hours (map (\<lambda>(r, m, p). date_only r) (new_maxima rows)) ! i)"
  using assms by (simp_all add: event_at_def)

lemma breakthroughs_pair:
  assumes "i < j" "j < length (breakthroughs rows)"
  shows "max_distance (breakthroughs rows ! i) < max_distance (breakthroughs rows ! j) \<and>
         date_only (ev_row (breakthroughs rows ! i)) \<le> date_only (ev_row (breakthroughs rows ! j))"
proof -
  let ?P = "new_maxima rows"
  from assms have i: "i < length ?P" and j: "j < length ?P" by simp_all
  obtain r m p where a: "?P ! i = (r, m, p)" by (cases "?P ! i") auto
  obtain r' m' p' where b: "?P ! j = (r', m', p')" by (cases "?P ! j") auto
  have "frame_le (?P ! i) (?P ! j)"
    using new_maxima_sorted assms(1) j by (simp add: sorted_wrt_iff_nth_less)
  with a b have le: "date_only r \<le> date_only r'" "m \<le> p'" by (simp_all add: frame_le_def)
  from j b have "(r', m', p') \<in> set ?P" by (metis nth_mem)
  then have "p' < distance_km r'" "m' = distance_km r'" using new_maxima_row by blast+
  with le have "m < m'" by simp
  with le(1) show ?thesis
    by (simp add: breakthroughs_nth [OF i] breakthroughs_nth [OF j]
        event_at_fields [OF a] event_at_fields [OF b])
qed

lemma breakthroughs_increasing:
  "sorted_wrt (<) (map max_distance (breakthroughs rows)) \<and>
   sorted (map (\<lambda>e. date_only (ev_row e)) (breakthroughs rows))"
proof -
  have a: "sorted_wrt (<) (map max_distance (breakthroughs rows))"
    using breakthroughs_pair [of _ _ rows] by (simp add: sorted_wrt_iff_nth_less)
  have b: "sorted (map (\<lambda>e. date_only (ev_row e)) (breakthroughs rows))"
    using breakthroughs_pair [of _ _ rows] by (simp add: sorted_wrt_iff_nth_less less_imp_le)
  from a b show ?thesis by blast
qed

lemma breakthroughs_step:
  assumes "Suc i < length (breakthroughs rows)"
  shows "time_diff (breakthroughs rows ! Suc i) =
           Val (24 * real_of_int (date_only (ev_row (breakthroughs rows ! Suc i)) -
                                  date_only (ev_row (breakthroughs rows ! i))))"
    and "distance_diff (breakthroughs rows ! Suc i) =
           (max_distance (breakthroughs rows ! Suc i) - prev_max (breakthroughs rows ! Suc i)) * 1000"
    and "speed (breakthroughs rows ! Suc i) =
           fdiv (distance_diff (breakthroughs rows ! Suc i)) (time_diff (breakthroughs rows ! Suc i))"
    and "0 < distance_diff (breakthroughs rows ! Suc i)"
proof -
  let ?P = "new_maxima rows"
  let ?ds = "map (\<lambda>(r, m, p). date_only r) ?P"
  from assms have i: "i < length ?P" and j: "Suc i < length ?P" by simp_all
  obtain r m p where a: "?P ! i = (r, m, p)" by (cases "?P ! i") auto
  obtain r' m' p' where b: "?P ! Suc i = (r', m', p')" by (cases "?P ! Suc i") auto
  from j have "Suc i < length ?ds" by simp
  then have "diff_hours ?ds ! Suc i = Val (24 * real_of_int (?ds ! Suc i - ?ds ! i))"
    by (rule diff_hours_next)
  with i j a b have td: "diff_hours ?ds ! Suc i = Val (24 * real_of_int (date_only r' - date_only r))"
    by simp
  from j b have "(r', m', p') \<in> set ?P" by (metis nth_mem)
  then have gt: "p' < m'" using new_maxima_row by blast
  show "time_diff (breakthroughs rows ! Suc i) =
           Val (24 * real_of_int (date_only (ev_row (breakthroughs rows ! Suc i)) -
                                  date_only (ev_row (breakthroughs rows ! i))))"
    by (simp add: breakthroughs_nth [OF i] breakthroughs_nth [OF j]
        event_at_fields [OF a] event_at_fields [OF b] td)
  show "distance_diff (breakthroughs rows ! Suc i) =
           (max_distance (breakthroughs rows ! Suc i) - prev_max (breakthroughs rows ! Suc i)) * 1000"
    by (simp add: breakthroughs_nth [OF j] event_at_fields [OF b])
  show "speed (breakthroughs rows ! Suc i) =
           fdiv (distance_diff (breakthroughs rows ! Suc i)) (time_diff (breakthroughs rows ! Suc i))"
    by (simp add: breakthroughs_nth [OF j] event_at_fields [OF b])
  show "0 < distance_diff (breakthroughs rows ! Suc i)"
    using gt by (simp add: breakthroughs_nth [OF j] event_at_fields [OF b])
qed

lemma breakthroughs_first:
  assumes "breakthroughs rows \<noteq> []"
  shows "time_diff (breakthroughs rows ! 0) = NaN" and "speed (breakthroughs rows ! 0) = NaN"
    and "distance_diff (breakthroughs rows ! 0) =
           (max_distance (breakthroughs rows ! 0) - prev_max (breakthroughs rows ! 0)) * 1000"
proof -
  let ?P = "new_maxima rows"
  let ?ds = "map (\<lambda>(r, m, p). date_only r) ?P"
  from assms have "0 < length (breakthroughs rows)" by blast
  then have i: "0 < length ?P" by simp
  obtain r m p where a: "?P ! 0 = (r, m, p)" by (cases "?P ! 0") auto
  from i have "0 < length ?ds" by simp
  then have td: "diff_hours ?ds ! 0 = NaN" by (rule diff_hours_first)
  show "time_diff (breakthroughs rows ! 0) = NaN"
    by (simp add: breakthroughs_nth [OF i] event_at_fields [OF a] td)
  show "speed (breakthroughs rows ! 0) = NaN"
    by (simp add: breakthroughs_nth [OF i] event_at_fields [OF a] td)
  show "distance_diff (breakthroughs rows ! 0) =
           (max_distance (breakthroughs rows ! 0) - prev_max (breakthroughs rows ! 0)) * 1000"
    by (simp add: breakthroughs_nth [OF i] event_at_fields [OF a])
qed

lemma new_maximum_emitted:
  assumes "(r, m, p) \<in> set (with_maxima rows)" and "p < distance_km r"
  shows "\<exists>e \<in> set (breakthroughs rows).
           ev_row e = r \<and> prev_max e = p \<and> max_distance e = distance_km r"
proof -
  let ?P = "new_maxima rows"
  from assms have mem: "(r, m, p) \<in> set ?P" by (simp add: new_maxima_def)
  then obtain i where i: "i < length ?P" and a: "?P ! i = (r, m, p)"
    by (auto simp: in_set_conv_nth)
  from mem have m: "m = distance_km r" using new_maxima_row by blast
  from i have "breakthroughs rows ! i \<in> set (breakthroughs rows)" by simp
  moreover have "ev_row (breakthroughs rows ! i) = r \<and> prev_max (breakthroughs rows ! i) = p \<and>
                 max_distance (breakthroughs rows ! i) = distance_km r"
    using m by (simp add: breakthroughs_nth [OF i] event_at_fields [OF a])
  ultimately show ?thesis by blast
qed

subsection \<open>The claims about the breakthrough events\<close>

lemma three_day_eval: "process_speed_data (Some three_day_rows) = Some three_day_events"
  by (simp add: speed_eval)

text \<open>
  Claim C5, as amended. The events that \<^verbatim>\<open>process_speed_data\<close> returns are strictly
  increasing in \<^verbatim>\<open>max_distance\<close> and non-decreasing in date.
\<close>

theorem breakthroughs_sorted:
  assumes "process_speed_data input_file = Some es"
  shows "sorted_wrt (<) (map max_distance es) \<and> sorted (map (\<lambda>e. date_only (ev_row e)) es)"
proof -
  from assms obtain rows where "es = breakthroughs rows"
    by (auto simp: process_speed_data_def)
  then show ?thesis by (simp only: breakthroughs_increasing)
qed

theorem breakthroughs_sorted_witness:
  "process_speed_data (Some three_day_rows) = Some three_day_events \<and>
   sorted_wrt (<) (map max_distance three_day_events) \<and>
   sorted (map (\<lambda>e. date_only (ev_row e)) three_day_events)"
  using breakthroughs_sorted [OF three_day_eval] three_day_eval by blast

text \<open>
  Claim C5 as stated fails: two satellites on one day, the second further out than the
  first, give two events of the same date.
\<close>

theorem same_day_dates_not_increasing:
  "map (\<lambda>e. date_only (ev_row e)) (the (process_speed_data (Some same_day_rows))) = [1, 1] \<and>
   \<not> sorted_wrt (<) (map (\<lambda>e. date_only (ev_row e)) (the (process_speed_data (Some same_day_rows))))"
  by (simp add: speed_eval)

text \<open>
  Claim C6. In a non-empty result the first event has NaN as its time difference and as
  its speed. Every later event has the hours since the date of the event before it in the
  result, the distance difference \<open>(max_distance - prev_max) \<sqdot> 1000\<close>, and as speed the
  float quotient of the two.
\<close>

theorem speed_columns:
  assumes "process_speed_data input_file = Some es" and "es \<noteq> []"
  shows "time_diff (hd es) = NaN \<and> speed (hd es) = NaN \<and>
         (\<forall>i. Suc i < length es \<longrightarrow>
            time_diff (es ! Suc i) =
              Val (24 * real_of_int (date_only (ev_row (es ! Suc i)) - date_only (ev_row (es ! i)))) \<and>
            distance_diff (es ! Suc i) = (max_distance (es ! Suc i) - prev_max (es ! Suc i)) * 1000 \<and>
            speed (es ! Suc i) = fdiv (distance_diff (es ! Suc i)) (time_diff (es ! Suc i)))"
proof -
  from assms(1) obtain rows where es: "es = breakthroughs rows"
    by (auto simp: process_speed_data_def)
  from assms(2) es have ne: "breakthroughs rows \<noteq> []" by simp
  then have hd: "hd (breakthroughs rows) = breakthroughs rows ! 0" by (rule hd_conv_nth)
  have a: "time_diff (hd es) = NaN" "speed (hd es) = NaN"
    unfolding es hd by (rule breakthroughs_first(1) [OF ne], rule breakthroughs_first(2) [OF ne])
  have b: "\<forall>i. Suc i < length es \<longrightarrow>
            time_diff (es ! Suc i) =
              Val (24 * real_of_int (date_only (ev_row (es ! Suc i)) - date_only (ev_row (es ! i)))) \<and>
            distance_diff (es ! Suc i) = (max_distance (es ! Suc i) - prev_max (es ! Suc i)) * 1000 \<and>
            speed (es ! Suc i) = fdiv (distance_diff (es ! Suc i)) (time_diff (es ! Suc i))"
    unfolding es using breakthroughs_step by blast
  from a b show ?thesis by blast
qed

theorem speed_columns_witness:
  "process_speed_data (Some three_day_rows) = Some three_day_events \<and> three_day_events \<noteq> [] \<and>
   time_diff (hd three_day_events) = NaN \<and> speed (hd three_day_events) = NaN \<and>
   time_diff (three_day_events ! Suc 0) = Val 48"
proof -
  have ne: "three_day_events \<noteq> []" by (simp add: three_day_events_def)
  from speed_columns [OF three_day_eval ne]
  have a: "time_diff (hd three_day_events) = NaN" "speed (hd three_day_events) = NaN"
    and b: "Suc 0 < length three_day_events \<longrightarrow>
       time_diff (three_day_events ! Suc 0) =
         Val (24 * real_of_int (date_only (ev_row (three_day_events ! Suc 0)) -
                                date_only (ev_row (three_day_events ! 0))))"
    by blast+
  have "Suc 0 < length three_day_events" by (simp add: three_day_events_def)
  with b have "time_diff (three_day_events ! Suc 0) =
         Val (24 * real_of_int (date_only (ev_row (three_day_events ! Suc 0)) -
                                date_only (ev_row (three_day_events ! 0))))" by blast
  also have "\<dots> = Val 48" by (simp add: three_day_events_def)
  finally show ?thesis using a ne three_day_eval by blast
qed

lemma same_date_gap:
  assumes "i < j" "j < length (breakthroughs rows)"
    and "date_only (ev_row (breakthroughs rows ! i)) = date_only (ev_row (breakthroughs rows ! j))"
  shows "time_diff (breakthroughs rows ! j) = Val 0 \<and> 0 < distance_diff (breakthroughs rows ! j) \<and>
         speed (breakthroughs rows ! j) = PInf"
proof -
  let ?es = "breakthroughs rows"
  from assms(1) obtain k where j: "j = Suc k" and ik: "i \<le> k" by (cases j) auto
  have "date_only (ev_row (?es ! i)) \<le> date_only (ev_row (?es ! k))"
  proof (cases "i = k")
    case True
    then show ?thesis by simp
  next
    case False
    with ik have "i < k" by simp
    moreover from assms(2) j have "k < length ?es" by simp
    ultimately show ?thesis using breakthroughs_pair by blast
  qed
  moreover have "date_only (ev_row (?es ! k)) \<le> date_only (ev_row (?es ! j))"
    using breakthroughs_pair [of k j rows] assms(2) j by simp
  ultimately have same: "date_only (ev_row (?es ! Suc k)) = date_only (ev_row (?es ! k))"
    using assms(3) j by simp
  from assms(2) j have s: "Suc k < length ?es" by simp
  have td: "time_diff (?es ! Suc k) = Val 0"
    using breakthroughs_step(1) [OF s] same by simp
  have dd: "0 < distance_diff (?es ! Suc k)" by (rule breakthroughs_step(4) [OF s])
  have "speed (?es ! Suc k) = fdiv (distance_diff (?es ! Suc k)) (time_diff (?es ! Suc k))"
    by (rule breakthroughs_step(3) [OF s])
  with td dd have "speed (?es ! Suc k) = PInf" by simp
  with td dd j show ?thesis by simp
qed

text \<open>
  Claim C10. The function returns a frame for every input. Every row that exceeds the
  running maximum before it is among the events. An event that has the date of an earlier
  event has the time difference zero and a positive distance difference, and its speed is
  the quotient of the two, positive infinity.
\<close>

theorem same_day_infinite_speed:
  "process_speed_data (Some rows) = Some (breakthroughs rows) \<and>
   (\<forall>(r, m, p) \<in> set (with_maxima rows). p < distance_km r \<longrightarrow>
      (\<exists>e \<in> set (breakthroughs rows).
         ev_row e = r \<and> prev_max e = p \<and> max_distance e = distance_km r)) \<and>
   (\<forall>i j. i < j \<and> j < length (breakthroughs rows) \<and>
          date_only (ev_row (breakthroughs rows ! i)) = date_only (ev_row (breakthroughs rows ! j)) \<longrightarrow>
      time_diff (breakthroughs rows ! j) = Val 0 \<and> 0 < distance_diff (breakthroughs rows ! j) \<and>
      speed (breakthroughs rows ! j) = PInf)"
proof -
  have a: "process_speed_data (Some rows) = Some (breakthroughs rows)"
    by (simp add: process_speed_data_def)
  have b: "\<forall>(r, m, p) \<in> set (with_maxima rows). p < distance_km r \<longrightarrow>
      (\<exists>e \<in> set (breakthroughs rows).
         ev_row e = r \<and> prev_max e = p \<and> max_distance e = distance_km r)"
    using new_maximum_emitted by fast
  have c: "\<forall>i j. i < j \<and> j < length (breakthroughs rows) \<and>
          date_only (ev_row (breakthroughs rows ! i)) = date_only (ev_row (breakthroughs rows ! j)) \<longrightarrow>
      time_diff (breakthroughs rows ! j) = Val 0 \<and> 0 < distance_diff (breakthroughs rows ! j) \<and>
      speed (breakthroughs rows ! j) = PInf"
    using same_date_gap by blast
  from a b c show ?thesis by blast
qed

lemma two_satellite_eval:
  "breakthroughs two_satellite_rows =
     [\<lparr>ev_row = \<lparr>date_only = 1, satellite_name = ''SNPP'', distance_km = 1\<rparr>,
        max_distance = 1, prev_max = 0, time_diff = NaN, distance_diff = 1000, speed = NaN\<rparr>,
      \<lparr>ev_row = \<lparr>date_only = 2, satellite_name = ''NOAA21'', distance_km = 2\<rparr>,
        max_distance = 2, prev_max = 1, time_diff = Val 24, distance_diff = 1000,
        speed = Val (1000 / 24)\<rparr>,
      \<lparr>ev_row = \<lparr>date_only = 2, satellite_name = ''SNPP'', distance_km = 7 / 2\<rparr>,
        max_distance = 7 / 2, prev_max = 2, time_diff = Val 0, distance_diff = 1500,
        speed = PInf\<rparr>]"
  by (simp add: speed_eval)

theorem same_day_infinite_speed_witness:
  "length (breakthroughs two_satellite_rows) = 3 \<and>
   date_only (ev_row (breakthroughs two_satellite_rows ! 1)) = 2 \<and>
   date_only (ev_row (breakthroughs two_satellite_rows ! 2)) = 2 \<and>
   time_diff (breakthroughs two_satellite_rows ! 2) = Val 0 \<and>
   speed (breakthroughs two_satellite_rows ! 2) = PInf"
proof -
  have len: "length (breakthroughs two_satellite_rows) = 3"
    and d1: "date_only (ev_row (breakthroughs two_satellite_rows ! 1)) = 2"
    and d2: "date_only (ev_row (breakthroughs two_satellite_rows ! 2)) = 2"
    by (simp_all add: two_satellite_eval)
  have "(1::nat) < 2 \<and> 2 < length (breakthroughs two_satellite_rows) \<and>
        date_only (ev_row (breakthroughs two_satellite_rows ! 1)) =
        date_only (ev_row (breakthroughs two_satellite_rows ! 2))"
    using len d1 d2 by simp
  with same_day_infinite_speed [of two_satellite_rows]
  have "time_diff (breakthroughs two_satellite_rows ! 2) = Val 0 \<and>
        speed (breakthroughs two_satellite_rows ! 2) = PInf" by blast
  with len d1 d2 show ?thesis by blast
qed

end
